theory Spec2Isabelle
  imports Main "HOL-Library.Multiset" "HOL-Library.AList"
begin

section \<open>Data model\<close>

text \<open>
  Row identifiers are the \<^verbatim>\<open>uuid\<close> columns of the migration; only their equality
  matters, so they are natural numbers here. A \<^verbatim>\<open>timestamptz\<close> is a point on the
  time line, a natural number of ticks.
\<close>

type_synonym uuid = nat
type_synonym timestamptz = nat

text \<open>
  The role a statement runs under. The chat policies are all declared
  \<^verbatim>\<open>TO authenticated\<close> and read \<^verbatim>\<open>auth.uid()\<close>; a request without a session
  (\<open>Anon\<close>) is covered by no policy, and a role exempt from row security (the owner
  of the tables, who applies the migration) is \<open>Privileged\<close>.
\<close>

datatype principal = Anon | Authenticated uuid | Privileged

datatype db_error =
  RlsViolation | UniqueViolation | ForeignKeyViolation | CheckViolation | InvalidTextRepresentation

datatype json = JNull | JNumber int | JString string | JObject "(string \<times> json) list"

text \<open>A calendar date, as a date input field yields it: year, month, day.\<close>

datatype date = Ymd int int int

datatype rental_status = Pending | Confirmed | Active | Completed | Cancelled

text \<open>
  The columns of \<^verbatim>\<open>clothing_items\<close> that the rental and chat code reads. A column
  that the client's interfaces declare as always present is a plain field. Prices are
  whole numbers, which the browser's arithmetic on doubles keeps exact.
\<close>

record clothing_item =
  ci_id :: uuid
  ci_title :: string
  ci_price_per_day :: int
  ci_owner_id :: uuid

record rental =
  r_id :: uuid
  r_item_id :: uuid
  r_renter_id :: uuid
  r_owner_id :: uuid
  r_start_date :: date
  r_end_date :: date
  r_total_price :: int
  r_status :: rental_status
  r_created_at :: timestamptz

record conversation =
  c_id :: uuid
  c_item_id :: uuid
  c_owner_id :: uuid
  c_renter_id :: uuid
  c_rental_id :: "uuid option"
  c_last_message_at :: timestamptz
  c_created_at :: timestamptz
  c_updated_at :: timestamptz

record message =
  m_id :: uuid
  m_conversation_id :: uuid
  m_sender_id :: uuid
  m_content :: string
  m_message_type :: string
  m_metadata :: json
  m_read_by :: json
  m_created_at :: timestamptz

text \<open>
  \<^verbatim>\<open>last_read_at\<close> is optional: the client tests it for presence
  (\<^verbatim>\<open>participant?.last_read_at\<close>) before it counts unread messages.
\<close>

record conversation_participant =
  p_id :: uuid
  p_conversation_id :: uuid
  p_user_id :: uuid
  p_joined_at :: timestamptz
  p_last_read_at :: "timestamptz option"

text \<open>The tables, each a list of rows in insertion order; \<open>users\<close> is \<^verbatim>\<open>auth.users\<close>.\<close>

record db =
  users :: "uuid list"
  clothing_items :: "clothing_item list"
  rentals :: "rental list"
  conversations :: "conversation list"
  messages :: "message list"
  conversation_participants :: "conversation_participant list"

section \<open>Access policies\<close>

text \<open>
  A policy \<^verbatim>\<open>TO authenticated\<close> is evaluated with \<^verbatim>\<open>auth.uid()\<close> bound to the caller.
  No policy applies to \<open>Anon\<close>, so row security rejects; \<open>Privileged\<close> is exempt.
\<close>

fun to_authenticated :: "principal \<Rightarrow> (uuid \<Rightarrow> bool) \<Rightarrow> bool" where
  "to_authenticated Privileged pol = True"
| "to_authenticated Anon pol = False"
| "to_authenticated (Authenticated uid) pol = pol uid"

text \<open>
  The subquery shared by the message and participant policies:
  \<^verbatim>\<open>EXISTS (SELECT 1 FROM conversations WHERE id = conversation_id
     AND (owner_id = auth.uid() OR renter_id = auth.uid()))\<close>.
  The rows it ranges over are themselves filtered by the conversations' own SELECT
  policy, which is the same disjunction.
\<close>

definition in_own_conversation :: "db \<Rightarrow> uuid \<Rightarrow> uuid \<Rightarrow> bool" where
  "in_own_conversation d cid uid =
     (\<exists>c \<in> set (conversations d). c_id c = cid \<and> (c_owner_id c = uid \<or> c_renter_id c = uid))"

text \<open>"Users can view their own conversations" (SELECT, USING).\<close>

definition conversations_select_policy :: "principal \<Rightarrow> conversation \<Rightarrow> bool" where
  "conversations_select_policy p c =
     to_authenticated p (\<lambda>uid. uid = c_owner_id c \<or> uid = c_renter_id c)"

text \<open>"Users can create conversations" (INSERT, WITH CHECK).\<close>

definition conversations_insert_policy :: "principal \<Rightarrow> conversation \<Rightarrow> bool" where
  "conversations_insert_policy p c =
     to_authenticated p (\<lambda>uid. uid = c_owner_id c \<or> uid = c_renter_id c)"

text \<open>
  "Participants can update conversations" (UPDATE, USING). The policy has no
  WITH CHECK clause, so its USING expression also checks the updated row.
\<close>

definition conversations_update_policy :: "principal \<Rightarrow> conversation \<Rightarrow> bool" where
  "conversations_update_policy p c =
     to_authenticated p (\<lambda>uid. uid = c_owner_id c \<or> uid = c_renter_id c)"

text \<open>"Participants can view messages in their conversations" (SELECT, USING).\<close>

definition messages_select_policy :: "principal \<Rightarrow> db \<Rightarrow> message \<Rightarrow> bool" where
  "messages_select_policy p d m =
     to_authenticated p (\<lambda>uid. in_own_conversation d (m_conversation_id m) uid)"

text \<open>"Participants can send messages" (INSERT, WITH CHECK).\<close>

definition messages_insert_policy :: "principal \<Rightarrow> db \<Rightarrow> message \<Rightarrow> bool" where
  "messages_insert_policy p d m =
     to_authenticated p
       (\<lambda>uid. uid = m_sender_id m \<and> in_own_conversation d (m_conversation_id m) uid)"

text \<open>"Senders can update their own messages" (UPDATE, USING).\<close>

definition messages_update_policy :: "principal \<Rightarrow> message \<Rightarrow> bool" where
  "messages_update_policy p m = to_authenticated p (\<lambda>uid. uid = m_sender_id m)"

text \<open>"Users can view their participations" (SELECT, USING).\<close>

definition participants_select_policy :: "principal \<Rightarrow> conversation_participant \<Rightarrow> bool" where
  "participants_select_policy p r = to_authenticated p (\<lambda>uid. uid = p_user_id r)"

text \<open>"Users can join conversations they're part of" (INSERT, WITH CHECK).\<close>

definition participants_insert_policy ::
  "principal \<Rightarrow> db \<Rightarrow> conversation_participant \<Rightarrow> bool" where
  "participants_insert_policy p d r =
     to_authenticated p
       (\<lambda>uid. uid = p_user_id r \<and> in_own_conversation d (p_conversation_id r) uid)"

text \<open>"Users can update their own participation" (UPDATE, USING).\<close>

definition participants_update_policy :: "principal \<Rightarrow> conversation_participant \<Rightarrow> bool" where
  "participants_update_policy p r = to_authenticated p (\<lambda>uid. uid = p_user_id r)"

text \<open>
  "Users can insert rentals" (INSERT, WITH CHECK \<^verbatim>\<open>auth.uid() = renter_id\<close>). The
  rental policies name no role; without a session \<^verbatim>\<open>auth.uid()\<close> is null and the
  comparison is not true.
\<close>

definition rentals_insert_policy :: "principal \<Rightarrow> rental \<Rightarrow> bool" where
  "rentals_insert_policy p r = to_authenticated p (\<lambda>uid. uid = r_renter_id r)"

section \<open>Statements on the tables\<close>

text \<open>A SELECT returns the rows that pass the table's SELECT policy.\<close>

definition select_conversations :: "principal \<Rightarrow> db \<Rightarrow> conversation list" where
  "select_conversations p d = filter (conversations_select_policy p) (conversations d)"

definition select_messages :: "principal \<Rightarrow> db \<Rightarrow> message list" where
  "select_messages p d = filter (messages_select_policy p d) (messages d)"

definition select_participants :: "principal \<Rightarrow> db \<Rightarrow> conversation_participant list" where
  "select_participants p d =
     filter (participants_select_policy p) (conversation_participants d)"

text \<open>The client library's \<^verbatim>\<open>.single()\<close>: the row when exactly one came back, else no data.\<close>

fun single :: "'a list \<Rightarrow> 'a option" where
  "single [x] = Some x"
| "single xs = None"

text \<open>\<^verbatim>\<open>.order(col, { ascending: false })\<close> and \<^verbatim>\<open>{ ascending: true }\<close>.\<close>

definition order_desc :: "('a \<Rightarrow> timestamptz) \<Rightarrow> 'a list \<Rightarrow> 'a list" where
  "order_desc col rows = rev (sort_key col rows)"

definition order_asc :: "('a \<Rightarrow> timestamptz) \<Rightarrow> 'a list \<Rightarrow> 'a list" where
  "order_asc col rows = sort_key col rows"

text \<open>
  The unique key of \<^verbatim>\<open>conversations\<close>: \<^verbatim>\<open>UNIQUE(item_id, owner_id, renter_id)\<close>.
\<close>

definition conversation_key :: "conversation \<Rightarrow> uuid \<times> uuid \<times> uuid" where
  "conversation_key c = (c_item_id c, c_owner_id c, c_renter_id c)"

text \<open>The unique key of \<^verbatim>\<open>conversation_participants\<close>: \<^verbatim>\<open>UNIQUE(conversation_id, user_id)\<close>.\<close>

definition participant_key :: "conversation_participant \<Rightarrow> uuid \<times> uuid" where
  "participant_key r = (p_conversation_id r, p_user_id r)"

text \<open>The foreign keys of a conversation row.\<close>

definition conversation_fk :: "db \<Rightarrow> conversation \<Rightarrow> bool" where
  "conversation_fk d c =
     (c_item_id c \<in> ci_id ` set (clothing_items d) \<and>
      c_owner_id c \<in> set (users d) \<and> c_renter_id c \<in> set (users d) \<and>
      (case c_rental_id c of None \<Rightarrow> True | Some r \<Rightarrow> r \<in> r_id ` set (rentals d)))"

definition participant_fk :: "db \<Rightarrow> conversation_participant \<Rightarrow> bool" where
  "participant_fk d r =
     (p_conversation_id r \<in> c_id ` set (conversations d) \<and> p_user_id r \<in> set (users d))"

definition message_fk :: "db \<Rightarrow> message \<Rightarrow> bool" where
  "message_fk d m =
     (m_conversation_id m \<in> c_id ` set (conversations d) \<and> m_sender_id m \<in> set (users d))"

text \<open>The CHECK constraint on \<^verbatim>\<open>messages.message_type\<close>.\<close>

definition message_type_check :: "string \<Rightarrow> bool" where
  "message_type_check t =
     (t \<in> set [''text'', ''system'', ''rental_request'', ''rental_update''])"

text \<open>
  The WHERE clause of an UPDATE. A statement without one, whose SET list assigns
  constants and which returns no row, reads no column of the table.
\<close>

datatype 'row where_clause = NoWhere | Where "'row \<Rightarrow> bool"

fun matches :: "'row where_clause \<Rightarrow> 'row \<Rightarrow> bool" where
  "matches NoWhere r = True"
| "matches (Where flt) r = flt r"

fun reads_columns :: "'row where_clause \<Rightarrow> bool" where
  "reads_columns NoWhere = False"
| "reads_columns (Where flt) = True"

text \<open>
  An UPDATE changes the rows that match its WHERE clause and pass the UPDATE policy;
  when the statement reads a column, the SELECT policy applies as well. Rows that do
  not pass are skipped without an error. Each changed row must pass the same policies
  again (an UPDATE policy without WITH CHECK checks the new row with its USING
  expression), and the keys and references of the table must still hold, or the
  statement is rejected as a whole.
\<close>

definition update_conversations ::
  "principal \<Rightarrow> conversation where_clause \<Rightarrow> (conversation \<Rightarrow> conversation) \<Rightarrow> db
     \<Rightarrow> db_error + db" where
  "update_conversations p w upd d =
     (let target = (\<lambda>c. matches w c \<and>
                         (if reads_columns w then conversations_select_policy p c else True) \<and>
                         conversations_update_policy p c);
          rows = map (\<lambda>c. if target c then upd c else c) (conversations d)
      in if \<exists>c \<in> set (conversations d). target c \<and>
              \<not> (conversations_update_policy p (upd c) \<and>
                 (if reads_columns w then conversations_select_policy p (upd c) else True))
         then Inl RlsViolation
         else if \<not> distinct (map c_id rows) \<or> \<not> distinct (map conversation_key rows)
         then Inl UniqueViolation
         else if (\<exists>c \<in> set (conversations d). target c \<and> \<not> conversation_fk d (upd c)) \<or>
                 (\<exists>m \<in> set (messages d). m_conversation_id m \<notin> c_id ` set rows) \<or>
                 (\<exists>r \<in> set (conversation_participants d).
                     p_conversation_id r \<notin> c_id ` set rows)
         then Inl ForeignKeyViolation
         else Inr (d\<lparr>conversations := rows\<rparr>))"


definition update_participants ::
  "principal \<Rightarrow> conversation_participant where_clause \<Rightarrow>
     (conversation_participant \<Rightarrow> conversation_participant) \<Rightarrow> db \<Rightarrow> db_error + db" where
  "update_participants p w upd d =
     (let target = (\<lambda>r. matches w r \<and>
                         (if reads_columns w then participants_select_policy p r else True) \<and>
                         participants_update_policy p r);
          rows = map (\<lambda>r. if target r then upd r else r) (conversation_participants d)
      in if \<exists>r \<in> set (conversation_participants d). target r \<and>
              \<not> (participants_update_policy p (upd r) \<and>
                 (if reads_columns w then participants_select_policy p (upd r) else True))
         then Inl RlsViolation
         else if \<not> distinct (map p_id rows) \<or> \<not> distinct (map participant_key rows)
         then Inl UniqueViolation
         else if \<exists>r \<in> set (conversation_participants d). target r \<and> \<not> participant_fk d (upd r)
         then Inl ForeignKeyViolation
         else Inr (d\<lparr>conversation_participants := rows\<rparr>))"

section \<open>Triggers\<close>

text \<open>
  \<^verbatim>\<open>update_conversation_last_message()\<close>, fired AFTER INSERT ON messages FOR EACH ROW:
  \<^verbatim>\<open>UPDATE conversations SET last_message_at = NEW.created_at,
       updated_at = NEW.created_at WHERE id = NEW.conversation_id\<close>.
  The function is not declared SECURITY DEFINER, so its statement runs as the role
  that inserted the message.
\<close>

definition update_conversation_last_message :: "principal \<Rightarrow> message \<Rightarrow> db \<Rightarrow> db_error + db" where
  "update_conversation_last_message p NEW d =
     update_conversations p (Where (\<lambda>c. c_id c = m_conversation_id NEW))
       (\<lambda>c. c\<lparr>c_last_message_at := m_created_at NEW, c_updated_at := m_created_at NEW\<rparr>) d"

text \<open>
  \<^verbatim>\<open>INSERT INTO messages\<close>: the WITH CHECK policy, the CHECK constraint, the primary
  key, the foreign keys, then the trigger. A failure anywhere leaves the tables as
  they were.
\<close>

definition insert_message :: "principal \<Rightarrow> message \<Rightarrow> db \<Rightarrow> db_error + db" where
  "insert_message p NEW d =
     (if \<not> messages_insert_policy p d NEW then Inl RlsViolation
      else if \<not> message_type_check (m_message_type NEW) then Inl CheckViolation
      else if m_id NEW \<in> m_id ` set (messages d) then Inl UniqueViolation
      else if \<not> message_fk d NEW then Inl ForeignKeyViolation
      else update_conversation_last_message p NEW (d\<lparr>messages := messages d @ [NEW]\<rparr>))"

text \<open>Messages inserted one after the other; the first failure stops the sequence.\<close>

fun insert_messages :: "principal \<Rightarrow> message list \<Rightarrow> db \<Rightarrow> db_error + db" where
  "insert_messages p [] d = Inr d"
| "insert_messages p (m # ms) d =
     (case insert_message p m d of Inl e \<Rightarrow> Inl e | Inr d' \<Rightarrow> insert_messages p ms d')"

text \<open>
  \<^verbatim>\<open>INSERT INTO conversation_participants (conversation_id, user_id) VALUES (..)
     ON CONFLICT (conversation_id, user_id) DO NOTHING\<close>.
  The row carries the generated \<^verbatim>\<open>id\<close> and the \<^verbatim>\<open>now()\<close> defaults. The WITH CHECK
  policy is evaluated on the proposed row before the conflict is looked for.
\<close>

definition insert_participant_on_conflict_do_nothing ::
  "principal \<Rightarrow> conversation_participant \<Rightarrow> db \<Rightarrow> db_error + db" where
  "insert_participant_on_conflict_do_nothing p r d =
     (if \<not> participants_insert_policy p d r then Inl RlsViolation
      else if participant_key r \<in> participant_key ` set (conversation_participants d) then Inr d
      else if p_id r \<in> p_id ` set (conversation_participants d) then Inl UniqueViolation
      else if \<not> participant_fk d r then Inl ForeignKeyViolation
      else Inr (d\<lparr>conversation_participants := conversation_participants d @ [r]\<rparr>))"

text \<open>The same statement repeated \<open>n\<close> times.\<close>

fun insert_participant_repeatedly ::
  "nat \<Rightarrow> principal \<Rightarrow> conversation_participant \<Rightarrow> db \<Rightarrow> db_error + db" where
  "insert_participant_repeatedly 0 p r d = Inr d"
| "insert_participant_repeatedly (Suc n) p r d =
     (case insert_participant_on_conflict_do_nothing p r d of
        Inl e \<Rightarrow> Inl e
      | Inr d' \<Rightarrow> insert_participant_repeatedly n p r d')"

text \<open>A participant row as the trigger inserts it: the other columns take their defaults.\<close>

definition new_participant :: "uuid \<Rightarrow> timestamptz \<Rightarrow> uuid \<Rightarrow> uuid \<Rightarrow> conversation_participant" where
  "new_participant pid now cid uid =
     \<lparr>p_id = pid, p_conversation_id = cid, p_user_id = uid,
      p_joined_at = now, p_last_read_at = Some now\<rparr>"

text \<open>
  \<^verbatim>\<open>create_conversation_participants()\<close>, fired AFTER INSERT ON conversations FOR EACH
  ROW: the owner is added, then the renter. \<open>pids\<close> are the two generated row
  identifiers and \<open>now\<close> the transaction's \<^verbatim>\<open>now()\<close>. Like the other trigger it is not
  SECURITY DEFINER: both inserts run as the role that inserted the conversation.
\<close>

definition create_conversation_participants ::
  "principal \<Rightarrow> timestamptz \<Rightarrow> uuid \<times> uuid \<Rightarrow> conversation \<Rightarrow> db \<Rightarrow> db_error + db" where
  "create_conversation_participants p now pids NEW d =
     (case insert_participant_on_conflict_do_nothing p
             (new_participant (fst pids) now (c_id NEW) (c_owner_id NEW)) d of
        Inl e \<Rightarrow> Inl e
      | Inr d' \<Rightarrow>
          insert_participant_on_conflict_do_nothing p
            (new_participant (snd pids) now (c_id NEW) (c_renter_id NEW)) d')"

text \<open>
  \<^verbatim>\<open>INSERT INTO conversations\<close>: the WITH CHECK policy, the primary key, the unique
  triple, the foreign keys, then the trigger.
\<close>

definition insert_conversation ::
  "principal \<Rightarrow> timestamptz \<Rightarrow> uuid \<times> uuid \<Rightarrow> conversation \<Rightarrow> db \<Rightarrow> db_error + db" where
  "insert_conversation p now pids NEW d =
     (if \<not> conversations_insert_policy p NEW then Inl RlsViolation
      else if c_id NEW \<in> c_id ` set (conversations d) then Inl UniqueViolation
      else if conversation_key NEW \<in> conversation_key ` set (conversations d)
      then Inl UniqueViolation
      else if \<not> conversation_fk d NEW then Inl ForeignKeyViolation
      else create_conversation_participants p now pids NEW
             (d\<lparr>conversations := conversations d @ [NEW]\<rparr>))"

section \<open>The messaging client\<close>

text \<open>
  Every method of \<^verbatim>\<open>ChatService\<close> takes the principal of the session it runs in and
  the tables, and returns its result with the tables as it leaves them. The values the
  server generates for a new row (\<^verbatim>\<open>gen_random_uuid()\<close>, \<^verbatim>\<open>now()\<close>) are arguments.
  The rows of other tables that a query embeds (item, owner, renter, sender) only
  decorate its result and are left out; \<^verbatim>\<open>messages!inner\<close> is the one embedding that
  filters.
\<close>

definition find_conversation ::
  "principal \<Rightarrow> uuid \<Rightarrow> uuid \<Rightarrow> uuid \<Rightarrow> db \<Rightarrow> conversation option" where
  "find_conversation p itemId ownerId renterId d =
     single [c \<leftarrow> select_conversations p d.
               c_item_id c = itemId \<and> c_owner_id c = ownerId \<and> c_renter_id c = renterId]"

text \<open>The row the client asks to insert; the columns it leaves out take their defaults.\<close>

definition new_conversation ::
  "uuid \<Rightarrow> timestamptz \<Rightarrow> uuid \<Rightarrow> uuid \<Rightarrow> uuid \<Rightarrow> conversation" where
  "new_conversation cid now itemId ownerId renterId =
     \<lparr>c_id = cid, c_item_id = itemId, c_owner_id = ownerId, c_renter_id = renterId,
      c_rental_id = None, c_last_message_at = now, c_created_at = now, c_updated_at = now\<rparr>"

text \<open>
  \<^verbatim>\<open>getOrCreateConversation\<close> awaits twice: the lookup, then the insert. \<open>others\<close> is
  what other sessions commit between the two. A \<^verbatim>\<open>createError\<close> is thrown, caught,
  logged, and the method returns null.
\<close>

definition getOrCreateConversation ::
  "principal \<Rightarrow> (db \<Rightarrow> db) \<Rightarrow> timestamptz \<Rightarrow> uuid \<Rightarrow> uuid \<times> uuid \<Rightarrow> uuid \<Rightarrow> uuid \<Rightarrow> uuid \<Rightarrow> db
     \<Rightarrow> conversation option \<times> db" where
  "getOrCreateConversation p others now cid pids itemId ownerId renterId d =
     (case find_conversation p itemId ownerId renterId d of
        Some existing \<Rightarrow> (Some existing, d)
      | None \<Rightarrow>
          (let d1 = others d;
               newConversation = new_conversation cid now itemId ownerId renterId
           in case insert_conversation p now pids newConversation d1 of
                Inl createError \<Rightarrow> (None, d1)
              | Inr d2 \<Rightarrow> (Some newConversation, d2)))"

text \<open>The result row of \<^verbatim>\<open>getUserConversations\<close>: \<^verbatim>\<open>{...conv, last_message, unread_count}\<close>.\<close>

record conversation_entry =
  conv :: conversation
  last_message :: "message option"
  unread_count :: nat

text \<open>Lines 87 to 96: the newest visible message of the conversation.\<close>

definition lastMessage :: "principal \<Rightarrow> uuid \<Rightarrow> db \<Rightarrow> message option" where
  "lastMessage p convId d =
     single (take 1 (order_desc m_created_at
                       [m \<leftarrow> select_messages p d. m_conversation_id m = convId]))"

text \<open>Lines 99 to 104: the caller's participant row.\<close>

definition participant_of ::
  "principal \<Rightarrow> uuid \<Rightarrow> uuid \<Rightarrow> db \<Rightarrow> conversation_participant option" where
  "participant_of p convId userId d =
     single [r \<leftarrow> select_participants p d. p_conversation_id r = convId \<and> p_user_id r = userId]"

text \<open>Lines 106 to 115: \<^verbatim>\<open>unreadCount\<close> stays 0 unless the participant row has a \<^verbatim>\<open>last_read_at\<close>.\<close>

definition unreadCount :: "principal \<Rightarrow> uuid \<Rightarrow> uuid \<Rightarrow> db \<Rightarrow> nat" where
  "unreadCount p convId userId d =
     (case participant_of p convId userId d of
        None \<Rightarrow> 0
      | Some participant \<Rightarrow>
          (case p_last_read_at participant of
             None \<Rightarrow> 0
           | Some last_read_at \<Rightarrow>
               length [m \<leftarrow> select_messages p d.
                         m_conversation_id m = convId \<and> m_sender_id m \<noteq> userId \<and>
                         last_read_at < m_created_at m]))"

text \<open>
  The first query of \<^verbatim>\<open>getUserConversations\<close>: the visible conversations with
  \<^verbatim>\<open>owner_id.eq.userId\<close> or \<^verbatim>\<open>renter_id.eq.userId\<close>, embedding \<^verbatim>\<open>messages!inner(..)\<close>
  (a conversation with no visible message is dropped), newest activity first.
\<close>

definition user_conversation_rows :: "principal \<Rightarrow> uuid \<Rightarrow> db \<Rightarrow> conversation list" where
  "user_conversation_rows p userId d =
     order_desc c_last_message_at
       [c \<leftarrow> select_conversations p d.
          (c_owner_id c = userId \<or> c_renter_id c = userId) \<and>
          (\<exists>m \<in> set (select_messages p d). m_conversation_id m = c_id c)]"

definition getUserConversations :: "principal \<Rightarrow> uuid \<Rightarrow> db \<Rightarrow> conversation_entry list" where
  "getUserConversations p userId d =
     map (\<lambda>c. \<lparr>conv = c,
               last_message = lastMessage p (c_id c) d,
               unread_count = unreadCount p (c_id c) userId d\<rparr>)
         (user_conversation_rows p userId d)"

definition getMessages :: "principal \<Rightarrow> uuid \<Rightarrow> db \<Rightarrow> message list" where
  "getMessages p conversationId d =
     order_asc m_created_at [m \<leftarrow> select_messages p d. m_conversation_id m = conversationId]"

definition sendMessage ::
  "principal \<Rightarrow> timestamptz \<Rightarrow> uuid \<Rightarrow> uuid \<Rightarrow> uuid \<Rightarrow> string \<Rightarrow> string \<Rightarrow> json \<Rightarrow> db
     \<Rightarrow> message option \<times> db" where
  "sendMessage p now mid conversationId senderId content messageType metadata d =
     (let data = \<lparr>m_id = mid, m_conversation_id = conversationId, m_sender_id = senderId,
                  m_content = content, m_message_type = messageType, m_metadata = metadata,
                  m_read_by = JObject [], m_created_at = now\<rparr>
      in case insert_message p data d of
           Inl error \<Rightarrow> (None, d)
         | Inr d' \<Rightarrow> (Some data, d'))"

text \<open>
  \<^verbatim>\<open>markAsRead\<close> writes the time of the caller's own clock,
  \<^verbatim>\<open>new Date().toISOString()\<close>, here \<open>clientNow\<close>; the result of the update is not
  looked at.
\<close>

definition markAsRead :: "principal \<Rightarrow> timestamptz \<Rightarrow> uuid \<Rightarrow> uuid \<Rightarrow> db \<Rightarrow> db" where
  "markAsRead p clientNow conversationId userId d =
     (case update_participants p
             (Where (\<lambda>r. p_conversation_id r = conversationId \<and> p_user_id r = userId))
             (\<lambda>r. r\<lparr>p_last_read_at := Some clientNow\<rparr>) d of
        Inl error \<Rightarrow> d
      | Inr d' \<Rightarrow> d')"

subsection \<open>Live subscriptions\<close>

text \<open>
  The state of the singleton: its \<^verbatim>\<open>subscriptions\<close> map (insertion ordered, keyed by
  conversation) and the channels that are open on the realtime connection. Every
  \<^verbatim>\<open>.channel(..).on(..).subscribe()\<close> opens a channel of its own.
\<close>

type_synonym channel = nat

record chat_service =
  subscriptions :: "(uuid \<times> channel) list"
  open_channels :: "channel list"
  next_channel :: channel

text \<open>The closure a subscribe method returns.\<close>

datatype cancel_handle = CancelMessages channel uuid | CancelConversations channel

definition unsubscribe :: "channel \<Rightarrow> chat_service \<Rightarrow> chat_service" where
  "unsubscribe subscription s = s\<lparr>open_channels := removeAll subscription (open_channels s)\<rparr>"

definition open_channel :: "chat_service \<Rightarrow> channel \<times> chat_service" where
  "open_channel s =
     (next_channel s,
      s\<lparr>open_channels := open_channels s @ [next_channel s],
        next_channel := Suc (next_channel s)\<rparr>)"

definition subscribeToMessages :: "uuid \<Rightarrow> chat_service \<Rightarrow> cancel_handle \<times> chat_service" where
  "subscribeToMessages conversationId s =
     (let (subscription, s1) = open_channel s
      in (CancelMessages subscription conversationId,
          s1\<lparr>subscriptions := AList.update conversationId subscription (subscriptions s1)\<rparr>))"

definition subscribeToConversations :: "uuid \<Rightarrow> chat_service \<Rightarrow> cancel_handle \<times> chat_service" where
  "subscribeToConversations userId s =
     (let (subscription, s1) = open_channel s
      in (CancelConversations subscription, s1))"

fun cancel :: "cancel_handle \<Rightarrow> chat_service \<Rightarrow> chat_service" where
  "cancel (CancelMessages subscription conversationId) s =
     (let s1 = unsubscribe subscription s
      in s1\<lparr>subscriptions := AList.delete conversationId (subscriptions s1)\<rparr>)"
| "cancel (CancelConversations subscription) s = unsubscribe subscription s"

definition cleanup :: "chat_service \<Rightarrow> chat_service" where
  "cleanup s =
     (fold (\<lambda>(conversationId, subscription). unsubscribe subscription) (subscriptions s) s)
       \<lparr>subscriptions := []\<rparr>"

definition new_chat_service :: chat_service where
  "new_chat_service = \<lparr>subscriptions = [], open_channels = [], next_channel = 0\<rparr>"

section \<open>The rental request form\<close>

text \<open>
  \<^verbatim>\<open>new Date(s).getTime()\<close> for a date-only string: midnight UTC of that day in
  milliseconds since the epoch.
\<close>

definition days_from_civil :: "int \<Rightarrow> int \<Rightarrow> int \<Rightarrow> int" where
  "days_from_civil y m dd =
     (let y1 = (if m \<le> 2 then y - 1 else y);
          era = y1 div 400;
          yoe = y1 - era * 400;
          doy = (153 * (if m > 2 then m - 3 else m + 9) + 2) div 5 + dd - 1;
          doe = yoe * 365 + yoe div 4 - yoe div 100 + doy
      in era * 146097 + doe - 719468)"

fun getTime :: "date \<Rightarrow> int" where
  "getTime (Ymd y m dd) = days_from_civil y m dd * 86400000"

text \<open>\<^verbatim>\<open>Math.ceil(a / b)\<close> for integers \<open>a\<close> and positive \<open>b\<close>.\<close>

definition ceil_div :: "int \<Rightarrow> int \<Rightarrow> int" where
  "ceil_div a b = - ((- a) div b)"

text \<open>The state of the form; an empty date field is \<open>None\<close>.\<close>

record rent_item_modal =
  startDate :: "date option"
  endDate :: "date option"
  totalPrice :: int

definition initial_modal :: rent_item_modal where
  "initial_modal = \<lparr>startDate = None, endDate = None, totalPrice = 0\<rparr>"

definition calculatePrice ::
  "clothing_item \<Rightarrow> date option \<Rightarrow> date option \<Rightarrow> rent_item_modal \<Rightarrow> rent_item_modal" where
  "calculatePrice item start end s =
     (case (start, end) of
        (Some startD, Some endD) \<Rightarrow>
          (let days = ceil_div (getTime endD - getTime startD) (1000 * 60 * 60 * 24)
           in if days > 0 then s\<lparr>totalPrice := days * ci_price_per_day item\<rparr>
              else s\<lparr>totalPrice := 0\<rparr>)
      | _ \<Rightarrow> s\<lparr>totalPrice := 0\<rparr>)"

definition handleStartDateChange ::
  "clothing_item \<Rightarrow> date option \<Rightarrow> rent_item_modal \<Rightarrow> rent_item_modal" where
  "handleStartDateChange item date s =
     calculatePrice item date (endDate s) (s\<lparr>startDate := date\<rparr>)"

definition handleEndDateChange ::
  "clothing_item \<Rightarrow> date option \<Rightarrow> rent_item_modal \<Rightarrow> rent_item_modal" where
  "handleEndDateChange item date s =
     calculatePrice item (startDate s) date (s\<lparr>endDate := date\<rparr>)"

text \<open>The CHECK constraint of \<^verbatim>\<open>rentals\<close>: \<^verbatim>\<open>end_date >= start_date\<close>.\<close>

fun date_le :: "date \<Rightarrow> date \<Rightarrow> bool" where
  "date_le (Ymd y m dd) (Ymd y' m' dd') =
     (y < y' \<or> (y = y' \<and> (m < m' \<or> (m = m' \<and> dd \<le> dd'))))"

definition rental_fk :: "db \<Rightarrow> rental \<Rightarrow> bool" where
  "rental_fk d r =
     (r_item_id r \<in> ci_id ` set (clothing_items d) \<and>
      r_renter_id r \<in> set (users d) \<and> r_owner_id r \<in> set (users d))"

definition insert_rental :: "principal \<Rightarrow> rental \<Rightarrow> db \<Rightarrow> db_error + db" where
  "insert_rental p NEW d =
     (if \<not> rentals_insert_policy p NEW then Inl RlsViolation
      else if \<not> date_le (r_start_date NEW) (r_end_date NEW) then Inl CheckViolation
      else if r_id NEW \<in> r_id ` set (rentals d) then Inl UniqueViolation
      else if \<not> rental_fk d NEW then Inl ForeignKeyViolation
      else Inr (d\<lparr>rentals := rentals d @ [NEW]\<rparr>))"

text \<open>The values the server generates while one request is submitted.\<close>

record server_values =
  sv_rental_id :: uuid
  sv_rental_now :: timestamptz
  sv_conversation_id :: uuid
  sv_conversation_now :: timestamptz
  sv_participant_ids :: "uuid \<times> uuid"
  sv_message_id :: uuid
  sv_message_now :: timestamptz

text \<open>
  The toast \<^verbatim>\<open>handleSubmit\<close> shows: 'Please select valid dates', the message of the
  error that was thrown, or 'Rental request sent successfully!'.
\<close>

datatype toast = SelectValidDates | UserNotAuthenticated | RentalError db_error | RequestSent

text \<open>\<^verbatim>\<open>supabase.auth.getUser()\<close> in the browser session.\<close>

fun getUser :: "principal \<Rightarrow> uuid option" where
  "getUser (Authenticated uid) = Some uid"
| "getUser p = None"

definition rental_request_metadata :: "string \<Rightarrow> string \<Rightarrow> int \<Rightarrow> json" where
  "rental_request_metadata start_date end_date total_price =
     JObject [(''rental_details'',
       JObject [(''start_date'', JString start_date), (''end_date'', JString end_date),
                (''total_price'', JNumber total_price)])]"

text \<open>The text of a date field, \<^verbatim>\<open>YYYY-MM-DD\<close>, for years 1000 to 9999.\<close>

definition digit :: "int \<Rightarrow> char" where
  "digit n = ''0123456789'' ! nat n"

definition two_digits :: "int \<Rightarrow> string" where
  "two_digits n = [digit (n div 10), digit (n mod 10)]"

fun date_text :: "date \<Rightarrow> string" where
  "date_text (Ymd y m dd) =
     two_digits (y div 100) @ two_digits (y mod 100) @ ''-'' @ two_digits m @ ''-'' @ two_digits dd"

text \<open>
  \<^verbatim>\<open>handleSubmit\<close>. \<open>content\<close> is the greeting text, which the browser renders with
  its locale's date format. The chat part runs inside its own try and catch, and the
  message is sent only \<^verbatim>\<open>if (conversation)\<close>.
\<close>

definition handleSubmit ::
  "principal \<Rightarrow> (db \<Rightarrow> db) \<Rightarrow> server_values \<Rightarrow> clothing_item \<Rightarrow> string \<Rightarrow> rent_item_modal \<Rightarrow> db
     \<Rightarrow> toast \<times> db" where
  "handleSubmit p others sv item content s d =
     (if totalPrice s \<le> 0 then (SelectValidDates, d)
      else case getUser p of
        None \<Rightarrow> (UserNotAuthenticated, d)
      | Some user \<Rightarrow>
          (case (startDate s, endDate s) of
             (Some start, Some end) \<Rightarrow>
               (case insert_rental p
                       \<lparr>r_id = sv_rental_id sv, r_item_id = ci_id item, r_renter_id = user,
                        r_owner_id = ci_owner_id item, r_start_date = start, r_end_date = end,
                        r_total_price = totalPrice s, r_status = Pending,
                        r_created_at = sv_rental_now sv\<rparr> d of
                  Inl error \<Rightarrow> (RentalError error, d)
                | Inr d1 \<Rightarrow>
                    (case getOrCreateConversation p others (sv_conversation_now sv)
                            (sv_conversation_id sv) (sv_participant_ids sv)
                            (ci_id item) (ci_owner_id item) user d1 of
                       (Some conversation, d2) \<Rightarrow>
                         (RequestSent,
                          snd (sendMessage p (sv_message_now sv) (sv_message_id sv)
                                 (c_id conversation) user content ''rental_request''
                                 (rental_request_metadata (date_text start) (date_text end)
                                    (totalPrice s)) d2))
                     | (None, d2) \<Rightarrow> (RequestSent, d2)))
           | _ \<Rightarrow> (RentalError InvalidTextRepresentation, d)))"

section \<open>Table constraints as predicates\<close>

text \<open>
  The declared constraints of \<^verbatim>\<open>conversation_participants\<close>: its primary key, its
  unique pair and its foreign keys. Every state of the table satisfies them.
\<close>

definition participants_constraints :: "db \<Rightarrow> bool" where
  "participants_constraints d =
     (distinct (map p_id (conversation_participants d)) \<and>
      distinct (map participant_key (conversation_participants d)) \<and>
      (\<forall>r \<in> set (conversation_participants d). participant_fk d r))"


text \<open>What the UPDATE of \<^verbatim>\<open>markAsRead\<close> does to one row of the table.\<close>

definition mark_row ::
  "principal \<Rightarrow> timestamptz \<Rightarrow> uuid \<Rightarrow> uuid \<Rightarrow> conversation_participant
     \<Rightarrow> conversation_participant" where
  "mark_row p t C U r =
     (if (p_conversation_id r = C \<and> p_user_id r = U) \<and> participants_select_policy p r \<and>
         participants_update_policy p r
      then r\<lparr>p_last_read_at := Some t\<rparr> else r)"

section \<open>Example data\<close>

text \<open>
  Users 1 (an owner), 2 (a renter) and 3 (a bystander); item 10, the owner's jacket at
  100 a day; conversation 20 between the two about the jacket.
\<close>

definition jacket :: clothing_item where
  "jacket = \<lparr>ci_id = 10, ci_title = ''Jacket'', ci_price_per_day = 100, ci_owner_id = 1\<rparr>"

definition thread :: "timestamptz \<Rightarrow> conversation" where
  "thread t =
     \<lparr>c_id = 20, c_item_id = 10, c_owner_id = 1, c_renter_id = 2, c_rental_id = None,
      c_last_message_at = t, c_created_at = 5, c_updated_at = t\<rparr>"

definition text_message :: "uuid \<Rightarrow> uuid \<Rightarrow> timestamptz \<Rightarrow> message" where
  "text_message mid sender t =
     \<lparr>m_id = mid, m_conversation_id = 20, m_sender_id = sender, m_content = ''hello'',
      m_message_type = ''text'', m_metadata = JObject [], m_read_by = JObject [],
      m_created_at = t\<rparr>"

definition member :: "uuid \<Rightarrow> uuid \<Rightarrow> timestamptz option \<Rightarrow> conversation_participant" where
  "member pid uid t =
     \<lparr>p_id = pid, p_conversation_id = 20, p_user_id = uid, p_joined_at = 5,
      p_last_read_at = t\<rparr>"

definition example_db ::
  "conversation list \<Rightarrow> message list \<Rightarrow> conversation_participant list \<Rightarrow> db" where
  "example_db cs ms ps =
     \<lparr>users = [1, 2, 3], clothing_items = [jacket], rentals = [], conversations = cs,
      messages = ms, conversation_participants = ps\<rparr>"

text \<open>A second conversation, 22, about the same jacket, between the owner and user 3.\<close>

definition side_thread :: conversation where
  "side_thread =
     \<lparr>c_id = 22, c_item_id = 10, c_owner_id = 1, c_renter_id = 3, c_rental_id = None,
      c_last_message_at = 6, c_created_at = 6, c_updated_at = 6\<rparr>"

definition side_message :: "string \<Rightarrow> message" where
  "side_message content =
     \<lparr>m_id = 34, m_conversation_id = 22, m_sender_id = 3, m_content = content,
      m_message_type = ''text'', m_metadata = JObject [], m_read_by = JObject [],
      m_created_at = 6\<rparr>"

text \<open>
  Statements user 3 may try: an UPDATE aimed at conversation 20 that would make them its
  renter, one aimed at the messages of conversation 20, and two that name every row.
\<close>

definition is_thread :: "conversation \<Rightarrow> bool" where
  "is_thread x = (c_id x = 20)"

definition become_renter :: "conversation \<Rightarrow> conversation" where
  "become_renter x = x\<lparr>c_renter_id := 3\<rparr>"

definition in_thread :: "message \<Rightarrow> bool" where
  "in_thread x = (m_conversation_id x = 20)"

definition edit :: "message \<Rightarrow> message" where
  "edit x = x\<lparr>m_content := ''edited''\<rparr>"

text \<open>
  Conversation 20 while user 3 was its renter, and the owner's UPDATE that hands it to
  user 2: \<^verbatim>\<open>UPDATE conversations SET renter_id = 2 WHERE id = 20\<close>.
\<close>

definition former_thread :: "timestamptz \<Rightarrow> conversation" where
  "former_thread t = (thread t)\<lparr>c_renter_id := 3\<rparr>"

definition reassign_renter :: "conversation \<Rightarrow> conversation" where
  "reassign_renter x = x\<lparr>c_renter_id := 2\<rparr>"

definition every_row :: "'a \<Rightarrow> bool" where
  "every_row x = True"

definition touch :: "conversation \<Rightarrow> conversation" where
  "touch x = x\<lparr>c_updated_at := 11\<rparr>"

text \<open>
  What another session commits between the lookup and the insert of a caller: the
  conversation 20 and its two participant rows.
\<close>

definition committed_meanwhile :: "db \<Rightarrow> db" where
  "committed_meanwhile d =
     d\<lparr>conversations := conversations d @ [thread 5],
       conversation_participants := conversation_participants d @
         [member 40 1 (Some 5), member 41 2 (Some 5)]\<rparr>"

text \<open>
  The rental request of the scenario: two days in June 2024. \<open>expected_rental\<close> and
  \<open>expected_message\<close> are the rows the scenario names.
\<close>

definition june_request :: rent_item_modal where
  "june_request =
     handleEndDateChange jacket (Some (Ymd 2024 6 3))
       (handleStartDateChange jacket (Some (Ymd 2024 6 1)) initial_modal)"

definition generated :: server_values where
  "generated =
     \<lparr>sv_rental_id = 50, sv_rental_now = 6, sv_conversation_id = 21, sv_conversation_now = 7,
      sv_participant_ids = (42, 43), sv_message_id = 30, sv_message_now = 8\<rparr>"

definition expected_rental :: "server_values \<Rightarrow> clothing_item \<Rightarrow> uuid \<Rightarrow> rental" where
  "expected_rental sv item renter =
     \<lparr>r_id = sv_rental_id sv, r_item_id = ci_id item, r_renter_id = renter,
      r_owner_id = ci_owner_id item, r_start_date = Ymd 2024 6 1, r_end_date = Ymd 2024 6 3,
      r_total_price = 200, r_status = Pending, r_created_at = sv_rental_now sv\<rparr>"

definition expected_message :: "server_values \<Rightarrow> uuid \<Rightarrow> string \<Rightarrow> uuid \<Rightarrow> message" where
  "expected_message sv renter content cid =
     \<lparr>m_id = sv_message_id sv, m_conversation_id = cid, m_sender_id = renter,
      m_content = content, m_message_type = ''rental_request'',
      m_metadata = JObject [(''rental_details'',
         JObject [(''start_date'', JString ''2024-06-01''), (''end_date'', JString ''2024-06-03''),
                  (''total_price'', JNumber 200)])],
      m_read_by = JObject [], m_created_at = sv_message_now sv\<rparr>"

section \<open>The conversation's timestamps follow each inserted message\<close>

lemma update_conversations_Inr:
  assumes "update_conversations p w upd d = Inr d'"
  shows "d' = d\<lparr>conversations :=
           map (\<lambda>c. if matches w c \<and>
                        (if reads_columns w then conversations_select_policy p c else True) \<and>
                        conversations_update_policy p c
                     then upd c else c) (conversations d)\<rparr>"
    and "distinct (map c_id (conversations d'))"
proof -
  from assms show "d' = d\<lparr>conversations :=
           map (\<lambda>c. if matches w c \<and>
                        (if reads_columns w then conversations_select_policy p c else True) \<and>
                        conversations_update_policy p c
                     then upd c else c) (conversations d)\<rparr>"
    unfolding update_conversations_def Let_def by (simp split: if_splits)
  with assms show "distinct (map c_id (conversations d'))"
    unfolding update_conversations_def Let_def by (simp split: if_splits)
qed

lemma insert_message_Inr:
  assumes "insert_message p m d = Inr d'"
  shows "messages_insert_policy p d m"
    and "m_conversation_id m \<in> c_id ` set (conversations d)"
    and "update_conversation_last_message p m (d\<lparr>messages := messages d @ [m]\<rparr>) = Inr d'"
  using assms by (auto simp: insert_message_def message_fk_def split: if_splits)

text \<open>
  Whoever may insert the message may also update its conversation: the sender is the
  owner or the renter of the one row with that identifier.
\<close>

lemma sender_may_update_conversation:
  assumes "messages_insert_policy p d m"
    and "c \<in> set (conversations d)" and "c_id c = m_conversation_id m"
    and "inj_on c_id (set (conversations d))"
  shows "conversations_select_policy p c \<and> conversations_update_policy p c"
proof (cases p)
  case Anon
  with assms(1) show ?thesis by (simp add: messages_insert_policy_def)
next
  case (Authenticated uid)
  with assms(1) obtain c1 where c1: "c1 \<in> set (conversations d)"
      "c_id c1 = m_conversation_id m" "c_owner_id c1 = uid \<or> c_renter_id c1 = uid"
    by (auto simp: messages_insert_policy_def in_own_conversation_def)
  from c1(1,2) assms(2,3,4) have "c1 = c" by (simp add: inj_on_def)
  with c1(3) Authenticated show ?thesis
    by (auto simp: conversations_select_policy_def conversations_update_policy_def)
next
  case Privileged
  then show ?thesis
    by (simp add: conversations_select_policy_def conversations_update_policy_def)
qed

lemma insert_message_advances:
  assumes ok: "insert_message p m d = Inr d'"
  shows "(\<exists>c \<in> set (conversations d'). c_id c = m_conversation_id m) \<and>
         (\<forall>c \<in> set (conversations d'). c_id c = m_conversation_id m \<longrightarrow>
            c_last_message_at c = m_created_at m \<and> c_updated_at c = m_created_at m) \<and>
         m \<in> set (messages d')"
proof -
  let ?d0 = "d\<lparr>messages := messages d @ [m]\<rparr>"
  let ?f = "\<lambda>c. if c_id c = m_conversation_id m \<and> conversations_select_policy p c \<and>
                    conversations_update_policy p c
                 then c\<lparr>c_last_message_at := m_created_at m, c_updated_at := m_created_at m\<rparr>
                 else c"
  note facts = insert_message_Inr [OF ok]
  from facts(3) have upd: "update_conversations p (Where (\<lambda>c. c_id c = m_conversation_id m))
      (\<lambda>c. c\<lparr>c_last_message_at := m_created_at m, c_updated_at := m_created_at m\<rparr>) ?d0 = Inr d'"
    by (simp add: update_conversation_last_message_def)
  have d': "d' = ?d0\<lparr>conversations := map ?f (conversations d)\<rparr>"
    using update_conversations_Inr(1) [OF upd] by simp
  have ids: "map c_id (conversations d') = map c_id (conversations d)"
    by (simp add: d' comp_def)
  have "distinct (map c_id (conversations d'))"
    by (rule update_conversations_Inr(2) [OF upd])
  then have inj: "inj_on c_id (set (conversations d))"
    by (simp add: ids distinct_map)
  have msg: "m \<in> set (messages d')" by (simp add: d')
  have ex: "\<exists>c \<in> set (conversations d'). c_id c = m_conversation_id m"
  proof -
    from facts(2) have "m_conversation_id m \<in> set (map c_id (conversations d'))"
      by (simp add: ids)
    then show ?thesis by auto
  qed
  have all: "\<forall>c \<in> set (conversations d'). c_id c = m_conversation_id m \<longrightarrow>
            c_last_message_at c = m_created_at m \<and> c_updated_at c = m_created_at m"
  proof (intro ballI impI)
    fix c' assume c': "c' \<in> set (conversations d')" and id: "c_id c' = m_conversation_id m"
    from c' obtain c where c: "c \<in> set (conversations d)" and eq: "c' = ?f c"
      by (auto simp: d')
    have "c_id (?f c) = c_id c" by simp
    with id eq have cid: "c_id c = m_conversation_id m" by simp
    from sender_may_update_conversation [OF facts(1) c cid inj]
    have "?f c = c\<lparr>c_last_message_at := m_created_at m, c_updated_at := m_created_at m\<rparr>"
      using cid by simp
    with eq show "c_last_message_at c' = m_created_at m \<and> c_updated_at c' = m_created_at m"
      by simp
  qed
  from ex all msg show ?thesis by blast
qed

lemma insert_messages_snoc:
  "insert_messages p (ms @ [m]) d = Inr d' \<Longrightarrow>
     \<exists>d1. insert_messages p ms d = Inr d1 \<and> insert_message p m d1 = Inr d'"
  by (induction ms arbitrary: d) (auto split: sum.splits)

lemmas example_defs =
  example_db_def jacket_def thread_def text_message_def member_def side_thread_def
  side_message_def committed_meanwhile_def is_thread_def become_renter_def in_thread_def
  edit_def every_row_def touch_def former_thread_def reassign_renter_def

lemmas policy_defs =
  conversations_select_policy_def conversations_insert_policy_def
  conversations_update_policy_def messages_select_policy_def messages_insert_policy_def
  messages_update_policy_def participants_select_policy_def participants_insert_policy_def
  participants_update_policy_def rentals_insert_policy_def in_own_conversation_def

lemmas constraint_defs =
  conversation_key_def participant_key_def conversation_fk_def participant_fk_def
  message_fk_def message_type_check_def

text \<open>
  C4. After any sequence of successful message inserts, the conversation of the message
  inserted last exists, its \<^verbatim>\<open>last_message_at\<close> and \<^verbatim>\<open>updated_at\<close> both equal that
  message's \<^verbatim>\<open>created_at\<close>, and the message is stored. Since the sequence before the
  last insert is arbitrary, this holds right after each insert.
\<close>

theorem last_message_at_follows_insert:
  assumes "insert_messages p (ms @ [m]) d = Inr d'"
  shows "(\<exists>c \<in> set (conversations d'). c_id c = m_conversation_id m) \<and>
         (\<forall>c \<in> set (conversations d'). c_id c = m_conversation_id m \<longrightarrow>
            c_last_message_at c = m_created_at m \<and> c_updated_at c = m_created_at m) \<and>
         m \<in> set (messages d')"
proof -
  from insert_messages_snoc [OF assms] obtain d1 where "insert_message p m d1 = Inr d'"
    by blast
  then show ?thesis by (rule insert_message_advances)
qed

theorem last_message_at_follows_insert_witness:
  "insert_messages (Authenticated 2) ([text_message 30 2 7] @ [text_message 31 2 9])
       (example_db [thread 5] [] []) =
     Inr (example_db [thread 9] [text_message 30 2 7, text_message 31 2 9] []) \<and>
   c_id (thread 9) = m_conversation_id (text_message 31 2 9) \<and>
   c_last_message_at (thread 9) = m_created_at (text_message 31 2 9) \<and>
   c_updated_at (thread 9) = m_created_at (text_message 31 2 9)"
proof -
  have h: "insert_messages (Authenticated 2) ([text_message 30 2 7] @ [text_message 31 2 9])
       (example_db [thread 5] [] []) =
     Inr (example_db [thread 9] [text_message 30 2 7, text_message 31 2 9] [])"
    by (simp add: example_defs insert_message_def update_conversation_last_message_def
        update_conversations_def policy_defs constraint_defs)
  have c: "conversations (example_db [thread 9] [text_message 30 2 7, text_message 31 2 9] [])
      = [thread 9]"
    by (simp add: example_db_def)
  have i: "c_id (thread 9) = m_conversation_id (text_message 31 2 9)"
    by (simp add: thread_def text_message_def)
  show ?thesis using h i last_message_at_follows_insert [OF h] unfolding c by simp
qed

section \<open>Participants created with a conversation\<close>

lemma insert_participant_absent:
  assumes "insert_participant_on_conflict_do_nothing p r d = Inr d'"
    and "participant_key r \<notin> participant_key ` set (conversation_participants d)"
  shows "d' = d\<lparr>conversation_participants := conversation_participants d @ [r]\<rparr>"
  using assms by (auto simp: insert_participant_on_conflict_do_nothing_def split: if_splits)

lemma insert_participant_present:
  assumes "insert_participant_on_conflict_do_nothing p r d = Inr d'"
    and "participant_key r \<in> participant_key ` set (conversation_participants d)"
  shows "d' = d"
  using assms by (auto simp: insert_participant_on_conflict_do_nothing_def split: if_splits)

lemma insert_participant_conflict:
  assumes "participants_insert_policy p d r"
    and "participant_key r \<in> participant_key ` set (conversation_participants d)"
  shows "insert_participant_on_conflict_do_nothing p r d = Inr d"
  using assms by (simp add: insert_participant_on_conflict_do_nothing_def)

lemma insert_participant_repeatedly_conflict:
  assumes "participants_insert_policy p d r"
    and "participant_key r \<in> participant_key ` set (conversation_participants d)"
  shows "insert_participant_repeatedly n p r d = Inr d"
  using assms by (induction n) (simp_all add: insert_participant_conflict)

lemma filter_key_unique:
  assumes "distinct (map key xs)" and "x \<in> set xs"
  shows "[y \<leftarrow> xs. key y = key x] = [x]"
  using assms
proof (induction xs)
  case Nil
  then show ?case by simp
next
  case (Cons a xs)
  show ?case
  proof (cases "a = x")
    case True
    with Cons.prems(1) have "\<forall>y \<in> set xs. key y \<noteq> key x" by (force simp: image_iff)
    then have "[y \<leftarrow> xs. key y = key x] = []" by (simp add: filter_empty_conv)
    with True show ?thesis by simp
  next
    case False
    with Cons.prems have "x \<in> set xs" "key a \<noteq> key x" "distinct (map key xs)"
      by (force simp: image_iff)+
    with Cons.IH show ?thesis by simp
  qed
qed

lemma one_row_per_key:
  assumes "distinct (map participant_key rs)" and "k \<in> participant_key ` set rs"
  shows "length [r \<leftarrow> rs. participant_key r = k] = 1"
proof -
  from assms(2) obtain r where "r \<in> set rs" "k = participant_key r" by auto
  with filter_key_unique [OF assms(1), of r] show ?thesis by simp
qed

lemma insert_conversation_Inr:
  assumes "insert_conversation p now pids NEW d = Inr d'"
  shows "c_id NEW \<notin> c_id ` set (conversations d)"
    and "create_conversation_participants p now pids NEW
           (d\<lparr>conversations := conversations d @ [NEW]\<rparr>) = Inr d'"
  using assms by (auto simp: insert_conversation_def split: if_splits)

lemma insert_participant_tables:
  assumes "insert_participant_on_conflict_do_nothing p r d = Inr d'"
  shows "messages d' = messages d \<and> rentals d' = rentals d \<and> conversations d' = conversations d"
  using assms by (auto simp: insert_participant_on_conflict_do_nothing_def split: if_splits)

lemma insert_conversation_tables:
  assumes "insert_conversation p now pids NEW d = Inr d'"
  shows "messages d' = messages d \<and> rentals d' = rentals d"
proof -
  from insert_conversation_Inr(2) [OF assms] obtain d1 where
    "insert_participant_on_conflict_do_nothing p
       (new_participant (fst pids) now (c_id NEW) (c_owner_id NEW))
       (d\<lparr>conversations := conversations d @ [NEW]\<rparr>) = Inr d1"
    "insert_participant_on_conflict_do_nothing p
       (new_participant (snd pids) now (c_id NEW) (c_renter_id NEW)) d1 = Inr d'"
    by (auto simp: create_conversation_participants_def split: sum.splits)
  from insert_participant_tables [OF this(1)] insert_participant_tables [OF this(2)]
  show ?thesis by simp
qed

lemma create_conversation_participants_rows:
  assumes ok: "create_conversation_participants p now pids NEW d = Inr d'"
    and fresh: "\<forall>r \<in> set (conversation_participants d). p_conversation_id r \<noteq> c_id NEW"
  shows "d' = d\<lparr>conversation_participants := conversation_participants d @
           (if c_owner_id NEW = c_renter_id NEW
            then [new_participant (fst pids) now (c_id NEW) (c_owner_id NEW)]
            else [new_participant (fst pids) now (c_id NEW) (c_owner_id NEW),
                  new_participant (snd pids) now (c_id NEW) (c_renter_id NEW)])\<rparr>"
proof -
  let ?o = "new_participant (fst pids) now (c_id NEW) (c_owner_id NEW)"
  let ?r = "new_participant (snd pids) now (c_id NEW) (c_renter_id NEW)"
  from ok obtain d1 where o: "insert_participant_on_conflict_do_nothing p ?o d = Inr d1"
    and r: "insert_participant_on_conflict_do_nothing p ?r d1 = Inr d'"
    by (auto simp: create_conversation_participants_def split: sum.splits)
  from fresh have "participant_key ?o \<notin> participant_key ` set (conversation_participants d)"
    by (auto simp: participant_key_def new_participant_def)
  from insert_participant_absent [OF o this]
  have d1: "d1 = d\<lparr>conversation_participants := conversation_participants d @ [?o]\<rparr>" .
  show ?thesis
  proof (cases "c_owner_id NEW = c_renter_id NEW")
    case True
    then have "participant_key ?r \<in> participant_key ` set (conversation_participants d1)"
      by (simp add: d1 participant_key_def new_participant_def)
    from insert_participant_present [OF r this] True show ?thesis by (simp add: d1)
  next
    case False
    with fresh have "participant_key ?r \<notin> participant_key ` set (conversation_participants d1)"
      by (auto simp: d1 participant_key_def new_participant_def)
    from insert_participant_absent [OF r this] False show ?thesis by (simp add: d1)
  qed
qed

text \<open>
  Both inserts of the trigger are checked against the participants' insert policy,
  whose first conjunct is \<^verbatim>\<open>auth.uid() = user_id\<close>. So an authenticated user's insert
  of a conversation goes through only when that user is its owner and its renter at
  once; the participant row of another party may not be inserted, and the error undoes
  the conversation.
\<close>

lemma authenticated_insert_conversation_self:
  assumes "insert_conversation (Authenticated u) now pids NEW d = Inr d'"
  shows "c_owner_id NEW = u \<and> c_renter_id NEW = u"
proof -
  from insert_conversation_Inr(2) [OF assms] obtain d0 d1 where
    o: "insert_participant_on_conflict_do_nothing (Authenticated u)
       (new_participant (fst pids) now (c_id NEW) (c_owner_id NEW)) d0 = Inr d1"
    and r: "insert_participant_on_conflict_do_nothing (Authenticated u)
       (new_participant (snd pids) now (c_id NEW) (c_renter_id NEW)) d1 = Inr d'"
    by (auto simp: create_conversation_participants_def split: sum.splits)
  from o have "c_owner_id NEW = u"
    by (auto simp: insert_participant_on_conflict_do_nothing_def participants_insert_policy_def
        new_participant_def split: if_splits)
  moreover from r have "c_renter_id NEW = u"
    by (auto simp: insert_participant_on_conflict_do_nothing_def participants_insert_policy_def
        new_participant_def split: if_splits)
  ultimately show ?thesis by simp
qed

text \<open>
  C5 does not hold of the code. \<^verbatim>\<open>create_conversation_participants()\<close> is not
  declared SECURITY DEFINER, so its two inserts into \<^verbatim>\<open>conversation_participants\<close> run
  as the user who inserts the conversation and are checked against that table's insert
  policy, \<^verbatim>\<open>auth.uid() = user_id AND EXISTS (...)\<close>. The row of the other party fails
  the check and the error undoes the whole insert: the conversations' own insert policy
  admits user 2, the renter, and user 1, the owner, for conversation 20 between them,
  yet the insert of either is rejected, and neither the conversation nor a participant
  row is stored.
\<close>

theorem conversation_insert_rejected_by_trigger:
  "conversations_insert_policy (Authenticated 2) (thread 5) \<and>
   insert_conversation (Authenticated 2) 5 (40, 41) (thread 5) (example_db [] [] []) =
     Inl RlsViolation \<and>
   conversations_insert_policy (Authenticated 1) (thread 5) \<and>
   insert_conversation (Authenticated 1) 5 (40, 41) (thread 5) (example_db [] [] []) =
     Inl RlsViolation"
  by (simp add: insert_conversation_def create_conversation_participants_def
      insert_participant_on_conflict_do_nothing_def new_participant_def
      example_defs policy_defs constraint_defs)

text \<open>
  The one conversation an authenticated user can insert is a conversation with
  themself: user 1 opens one as owner and renter of the same jacket, the insert
  succeeds, and the trigger leaves a single participant row, because its second insert
  meets the conflict.
\<close>

lemma self_conversation_has_one_participant:
  "insert_conversation (Authenticated 1) 5 (40, 41) (new_conversation 21 5 10 1 1)
       (example_db [] [] []) =
     Inr (example_db [new_conversation 21 5 10 1 1] [] [new_participant 40 5 21 1]) \<and>
   length (conversation_participants
       (example_db [new_conversation 21 5 10 1 1] [] [new_participant 40 5 21 1])) = 1"
  by (simp add: insert_conversation_def create_conversation_participants_def
      insert_participant_on_conflict_do_nothing_def new_conversation_def new_participant_def
      example_defs policy_defs constraint_defs)

text \<open>
  What the trigger does where it is allowed to: a conversation insert that succeeds
  (for a role that bypasses row security, or for a user who is owner and renter at
  once) adds one participant row for the owner and one for the renter, two rows when
  they differ and a single row when they are the same user. And the trigger's insert of
  a pair that is already present, made any number of times by a role the insert policy
  admits, returns the table unchanged without an error, with exactly one row for the
  pair.
\<close>

lemma participants_created_on_insert:
  "(insert_conversation p now pids NEW d = Inr d' \<and>
    (\<forall>r \<in> set (conversation_participants d). p_conversation_id r \<in> c_id ` set (conversations d))
    \<longrightarrow> conversation_participants d' = conversation_participants d @
          (if c_owner_id NEW = c_renter_id NEW
           then [new_participant (fst pids) now (c_id NEW) (c_owner_id NEW)]
           else [new_participant (fst pids) now (c_id NEW) (c_owner_id NEW),
                 new_participant (snd pids) now (c_id NEW) (c_renter_id NEW)])) \<and>
   (participants_insert_policy q e r \<and>
    participant_key r \<in> participant_key ` set (conversation_participants e) \<and>
    distinct (map participant_key (conversation_participants e))
    \<longrightarrow> insert_participant_repeatedly n q r e = Inr e \<and>
        length [x \<leftarrow> conversation_participants e. participant_key x = participant_key r] = 1)"
proof (intro conjI impI; (elim conjE)?)
  assume ok: "insert_conversation p now pids NEW d = Inr d'"
    and fk: "\<forall>r \<in> set (conversation_participants d).
               p_conversation_id r \<in> c_id ` set (conversations d)"
  note facts = insert_conversation_Inr [OF ok]
  from fk facts(1)
  have "\<forall>r \<in> set (conversation_participants (d\<lparr>conversations := conversations d @ [NEW]\<rparr>)).
          p_conversation_id r \<noteq> c_id NEW"
    by (force simp: image_iff)
  from create_conversation_participants_rows [OF facts(2) this]
  show "conversation_participants d' = conversation_participants d @
          (if c_owner_id NEW = c_renter_id NEW
           then [new_participant (fst pids) now (c_id NEW) (c_owner_id NEW)]
           else [new_participant (fst pids) now (c_id NEW) (c_owner_id NEW),
                 new_participant (snd pids) now (c_id NEW) (c_renter_id NEW)])"
    by simp
next
  assume "participants_insert_policy q e r"
    and "participant_key r \<in> participant_key ` set (conversation_participants e)"
  then show "insert_participant_repeatedly n q r e = Inr e"
    by (rule insert_participant_repeatedly_conflict)
next
  assume "participant_key r \<in> participant_key ` set (conversation_participants e)"
    and "distinct (map participant_key (conversation_participants e))"
  then show "length [x \<leftarrow> conversation_participants e. participant_key x = participant_key r] = 1"
    by (simp add: one_row_per_key)
qed

lemma participants_created_on_insert_example:
  "insert_conversation Privileged 5 (40, 41) (thread 5) (example_db [] [] []) =
     Inr (example_db [thread 5] [] [member 40 1 (Some 5), member 41 2 (Some 5)]) \<and>
   conversation_participants
       (example_db [thread 5] [] [member 40 1 (Some 5), member 41 2 (Some 5)]) =
     [new_participant 40 5 20 1, new_participant 41 5 20 2] \<and>
   insert_participant_repeatedly 3 (Authenticated 2) (new_participant 44 9 20 2)
       (example_db [thread 5] [] [member 40 1 (Some 5), member 41 2 (Some 5)]) =
     Inr (example_db [thread 5] [] [member 40 1 (Some 5), member 41 2 (Some 5)]) \<and>
   length [x \<leftarrow> conversation_participants
                (example_db [thread 5] [] [member 40 1 (Some 5), member 41 2 (Some 5)]).
             participant_key x = participant_key (new_participant 44 9 20 2)] = 1"
proof -
  let ?after = "example_db [thread 5] [] [member 40 1 (Some 5), member 41 2 (Some 5)]"
  have h1: "insert_conversation Privileged 5 (40, 41) (thread 5) (example_db [] [] []) =
      Inr ?after"
    by (simp add: insert_conversation_def create_conversation_participants_def
        insert_participant_on_conflict_do_nothing_def new_participant_def
        example_defs policy_defs constraint_defs)
  have h2: "\<forall>r \<in> set (conversation_participants (example_db [] [] [])).
      p_conversation_id r \<in> c_id ` set (conversations (example_db [] [] []))"
    by (simp add: example_db_def)
  have h3: "participants_insert_policy (Authenticated 2) ?after (new_participant 44 9 20 2)"
    by (simp add: new_participant_def example_defs policy_defs)
  have h4: "participant_key (new_participant 44 9 20 2) \<in>
      participant_key ` set (conversation_participants ?after)"
    by (simp add: new_participant_def example_defs participant_key_def)
  have h5: "distinct (map participant_key (conversation_participants ?after))"
    by (simp add: example_defs participant_key_def)
  have rows: "conversation_participants (example_db [] [] []) = []"
      "c_owner_id (thread 5) \<noteq> c_renter_id (thread 5)"
      "c_id (thread 5) = 20" "c_owner_id (thread 5) = 1" "c_renter_id (thread 5) = 2"
    by (simp_all add: example_defs)
  note inst = participants_created_on_insert
    [of Privileged 5 "(40, 41)" "thread 5" "example_db [] [] []" ?after
        "Authenticated 2" ?after "new_participant 44 9 20 2" 3]
  from mp [OF inst [THEN conjunct1] conjI [OF h1 h2]]
  have a: "conversation_participants ?after =
      [new_participant 40 5 20 1, new_participant 41 5 20 2]"
    by (simp add: rows)
  from mp [OF inst [THEN conjunct2] conjI [OF h3 conjI [OF h4 h5]]]
  have b: "insert_participant_repeatedly 3 (Authenticated 2) (new_participant 44 9 20 2) ?after =
      Inr ?after \<and>
    length [x \<leftarrow> conversation_participants ?after.
              participant_key x = participant_key (new_participant 44 9 20 2)] = 1" .
  from h1 a b show ?thesis by (intro conjI) simp_all
qed

section \<open>Looking a conversation up, or creating it\<close>

lemma single_Some_mem: "single xs = Some x \<Longrightarrow> x \<in> set xs"
  by (cases xs rule: single.cases) auto

lemma find_conversation_Some:
  assumes "find_conversation p itemId ownerId renterId d = Some c"
  shows "c \<in> set (conversations d) \<and> conversation_key c = (itemId, ownerId, renterId)"
proof -
  from assms have "c \<in> set [c \<leftarrow> select_conversations p d.
               c_item_id c = itemId \<and> c_owner_id c = ownerId \<and> c_renter_id c = renterId]"
    unfolding find_conversation_def by (rule single_Some_mem)
  then show ?thesis by (auto simp: select_conversations_def conversation_key_def)
qed

lemma insert_conversation_rows:
  assumes "insert_conversation p now pids NEW d = Inr d'"
  shows "conversations d' = conversations d @ [NEW]"
    and "conversation_key NEW \<notin> conversation_key ` set (conversations d)"
proof -
  from insert_conversation_Inr(2) [OF assms] obtain d1 where
    "insert_participant_on_conflict_do_nothing p
       (new_participant (fst pids) now (c_id NEW) (c_owner_id NEW))
       (d\<lparr>conversations := conversations d @ [NEW]\<rparr>) = Inr d1"
    "insert_participant_on_conflict_do_nothing p
       (new_participant (snd pids) now (c_id NEW) (c_renter_id NEW)) d1 = Inr d'"
    by (auto simp: create_conversation_participants_def split: sum.splits)
  from insert_participant_tables [OF this(1)] insert_participant_tables [OF this(2)]
  show "conversations d' = conversations d @ [NEW]" by simp
  from assms show "conversation_key NEW \<notin> conversation_key ` set (conversations d)"
    by (auto simp: insert_conversation_def split: if_splits)
qed

lemma getOrCreateConversation_keeps_unique:
  assumes "distinct (map conversation_key (conversations d))"
    and "distinct (map conversation_key (conversations (others d)))"
  shows "distinct (map conversation_key (conversations
           (snd (getOrCreateConversation p others now cid pids itemId ownerId renterId d))))"
proof (cases "find_conversation p itemId ownerId renterId d")
  case (Some c)
  with assms(1) show ?thesis by (simp add: getOrCreateConversation_def)
next
  case None
  show ?thesis
  proof (cases "insert_conversation p now pids
                  (new_conversation cid now itemId ownerId renterId) (others d)")
    case (Inl e)
    with None assms(2) show ?thesis by (simp add: getOrCreateConversation_def)
  next
    case (Inr d2)
    from insert_conversation_rows [OF Inr] assms(2)
    have "distinct (map conversation_key (conversations d2))" by simp
    with None Inr show ?thesis by (simp add: getOrCreateConversation_def)
  qed
qed

text \<open>
  C1, as stated, fails: user 2 looks the conversation up and finds none; another
  session commits it; user 2's insert is rejected for the unique triple; the method
  returns null, although a lookup would now return the committed row.
\<close>

theorem getOrCreateConversation_no_refetch:
  "find_conversation (Authenticated 2) 10 1 2 (example_db [] [] []) = None \<and>
   insert_conversation (Authenticated 2) 6 (42, 43) (new_conversation 21 6 10 1 2)
      (committed_meanwhile (example_db [] [] [])) = Inl UniqueViolation \<and>
   find_conversation (Authenticated 2) 10 1 2 (committed_meanwhile (example_db [] [] [])) =
      Some (thread 5) \<and>
   getOrCreateConversation (Authenticated 2) committed_meanwhile 6 21 (42, 43) 10 1 2
      (example_db [] [] []) = (None, committed_meanwhile (example_db [] [] []))"
  by (simp add: getOrCreateConversation_def find_conversation_def select_conversations_def
      insert_conversation_def new_conversation_def example_defs policy_defs constraint_defs)

text \<open>
  C1, amended. When the lookup finds no row and the insert is rejected (for the unique
  triple or for any other reason), the method returns null and leaves the tables as
  the other sessions left them; it does not fetch again. When the lookup finds the
  row, that stored row of the triple is returned and nothing is written, so a caller
  that lost the race gets the same row identifier from a later call. Whatever the
  interleaving, the call never leaves two rows for one triple.
\<close>

theorem getOrCreateConversation_insert_rejected:
  "(find_conversation p itemId ownerId renterId d = None \<and>
    insert_conversation p now pids (new_conversation cid now itemId ownerId renterId) (others d)
      = Inl error
    \<longrightarrow> getOrCreateConversation p others now cid pids itemId ownerId renterId d
          = (None, others d)) \<and>
   (find_conversation p itemId ownerId renterId d' = Some c
    \<longrightarrow> getOrCreateConversation p others now cid pids itemId ownerId renterId d' = (Some c, d') \<and>
        c \<in> set (conversations d') \<and> conversation_key c = (itemId, ownerId, renterId)) \<and>
   (distinct (map conversation_key (conversations d)) \<and>
    distinct (map conversation_key (conversations (others d)))
    \<longrightarrow> distinct (map conversation_key (conversations
           (snd (getOrCreateConversation p others now cid pids itemId ownerId renterId d)))))"
  using getOrCreateConversation_keeps_unique [of d others p now cid pids itemId ownerId renterId]
  by (auto simp: getOrCreateConversation_def Let_def dest: find_conversation_Some)

theorem getOrCreateConversation_insert_rejected_witness:
  "getOrCreateConversation (Authenticated 2) committed_meanwhile 6 21 (42, 43) 10 1 2
      (example_db [] [] []) = (None, committed_meanwhile (example_db [] [] [])) \<and>
   getOrCreateConversation (Authenticated 2) committed_meanwhile 6 21 (42, 43) 10 1 2
      (example_db [thread 5] [] []) = (Some (thread 5), example_db [thread 5] [] []) \<and>
   c_id (thread 5) = 20 \<and>
   map conversation_key (conversations (committed_meanwhile (example_db [] [] []))) =
     [(10, 1, 2)]"
proof -
  have h1: "find_conversation (Authenticated 2) 10 1 2 (example_db [] [] []) = None"
    by (simp add: find_conversation_def select_conversations_def example_defs)
  have h2: "insert_conversation (Authenticated 2) 6 (42, 43) (new_conversation 21 6 10 1 2)
      (committed_meanwhile (example_db [] [] [])) = Inl UniqueViolation"
    by (simp add: insert_conversation_def new_conversation_def example_defs policy_defs
        constraint_defs)
  have h3: "find_conversation (Authenticated 2) 10 1 2 (example_db [thread 5] [] []) =
      Some (thread 5)"
    by (simp add: find_conversation_def select_conversations_def example_defs policy_defs)
  have h4: "distinct (map conversation_key (conversations (example_db [] [] [])))"
      "distinct (map conversation_key (conversations (committed_meanwhile (example_db [] [] []))))"
    by (simp_all add: example_defs)
  have i: "c_id (thread 5) = 20" by (simp add: thread_def)
  have k: "map conversation_key (conversations (committed_meanwhile (example_db [] [] []))) =
     [(10, 1, 2)]"
    by (simp add: example_defs conversation_key_def)
  from getOrCreateConversation_insert_rejected
    [of "Authenticated 2" 10 1 2 "example_db [] [] []" 6 "(42, 43)" 21 committed_meanwhile
        UniqueViolation "example_db [thread 5] [] []" "thread 5"]
    h1 h2 h3 h4 i k
  show ?thesis by simp
qed

section \<open>The list of a user's conversations\<close>

lemma sorted_wrt_order_desc:
  "sorted_wrt (\<lambda>a b. col b \<le> col a) (order_desc col rows)"
proof -
  have "sorted (map col (sort_key col rows))" by simp
  then have "sorted_wrt (\<lambda>a b. col a \<le> col b) (sort_key col rows)"
    by (simp add: sorted_wrt_map)
  then show ?thesis
    unfolding order_desc_def by (simp add: sorted_wrt_rev)
qed

lemma mset_order_desc: "mset (order_desc col rows) = mset rows"
  by (simp add: order_desc_def)

lemma own_messages_visible:
  assumes "c \<in> set (conversations d)" and "c_owner_id c = u \<or> c_renter_id c = u"
    and "m_conversation_id m = c_id c"
  shows "messages_select_policy (Authenticated u) d m"
  using assms by (auto simp: messages_select_policy_def in_own_conversation_def)

lemma user_conversation_rows_own:
  "mset (user_conversation_rows (Authenticated u) u d) =
   mset [c \<leftarrow> conversations d. (c_owner_id c = u \<or> c_renter_id c = u) \<and>
          (\<exists>m \<in> set (messages d). m_conversation_id m = c_id c)]"
proof -
  have "[c \<leftarrow> select_conversations (Authenticated u) d.
          (c_owner_id c = u \<or> c_renter_id c = u) \<and>
          (\<exists>m \<in> set (select_messages (Authenticated u) d). m_conversation_id m = c_id c)] =
        [c \<leftarrow> conversations d. (c_owner_id c = u \<or> c_renter_id c = u) \<and>
          (\<exists>m \<in> set (messages d). m_conversation_id m = c_id c)]"
    unfolding select_conversations_def filter_filter
    by (rule filter_cong)
      (auto simp: conversations_select_policy_def select_messages_def own_messages_visible)
  then show ?thesis
    by (simp add: user_conversation_rows_def mset_order_desc)
qed

text \<open>
  What the list holds: for the user who asks for their own list, the conversations
  returned are, each once, those in which that user is the owner or the renter and that
  hold at least one message, in descending order of \<^verbatim>\<open>last_message_at\<close>.
\<close>

lemma getUserConversations_lists_threads_with_messages:
  "mset (map conv (getUserConversations (Authenticated u) u d)) =
     mset [c \<leftarrow> conversations d. (c_owner_id c = u \<or> c_renter_id c = u) \<and>
            (\<exists>m \<in> set (messages d). m_conversation_id m = c_id c)] \<and>
   sorted_wrt (\<lambda>a b. c_last_message_at b \<le> c_last_message_at a)
     (map conv (getUserConversations (Authenticated u) u d))"
proof -
  have m: "map conv (getUserConversations (Authenticated u) u d) =
        user_conversation_rows (Authenticated u) u d"
    by (simp add: getUserConversations_def comp_def)
  show ?thesis
    unfolding m
    by (simp add: user_conversation_rows_own)
       (simp add: user_conversation_rows_def sorted_wrt_order_desc)
qed

text \<open>
  C2 does not hold of the code. The query of \<^verbatim>\<open>getUserConversations\<close> embeds
  \<^verbatim>\<open>messages!inner(...)\<close>, an inner join, which drops every conversation without a
  message: user 2 is the renter of conversation 20, nobody has written in it yet, and
  the list user 2 gets is empty. \<^verbatim>\<open>ItemCard.handleStartChat\<close> creates such a conversation
  and opens the chat window on it, and the chat window looks it up in this list.
\<close>

theorem getUserConversations_omits_empty_thread:
  "thread 5 \<in> set (conversations
       (example_db [thread 5] [] [member 40 1 (Some 5), member 41 2 (Some 5)])) \<and>
   c_renter_id (thread 5) = 2 \<and>
   messages (example_db [thread 5] [] [member 40 1 (Some 5), member 41 2 (Some 5)]) = [] \<and>
   getUserConversations (Authenticated 2) 2
       (example_db [thread 5] [] [member 40 1 (Some 5), member 41 2 (Some 5)]) = []"
  by (simp add: getUserConversations_def user_conversation_rows_def order_desc_def
      select_conversations_def select_messages_def example_defs policy_defs)


section \<open>Unread counts\<close>

lemma single_filter_key:
  assumes "distinct (map key rs)" and "r \<in> set rs"
    and "\<And>x. x \<in> set rs \<Longrightarrow> Q x = (key x = key r)"
  shows "single (filter Q rs) = Some r"
proof -
  from assms(3) have "filter Q rs = [y \<leftarrow> rs. key y = key r]"
    by (auto intro: filter_cong)
  with filter_key_unique [OF assms(1,2)] show ?thesis by simp
qed

lemma participant_of_own:
  assumes "distinct (map participant_key (conversation_participants d))"
    and "r \<in> set (conversation_participants d)"
  shows "participant_of (Authenticated (p_user_id r)) (p_conversation_id r) (p_user_id r) d
           = Some r"
proof -
  have "[x \<leftarrow> select_participants (Authenticated (p_user_id r)) d.
           p_conversation_id x = p_conversation_id r \<and> p_user_id x = p_user_id r] =
        filter (\<lambda>x. p_user_id r = p_user_id x \<and> p_conversation_id x = p_conversation_id r \<and>
                     p_user_id x = p_user_id r) (conversation_participants d)"
    by (simp add: select_participants_def participants_select_policy_def)
  also have "single \<dots> = Some r"
    by (rule single_filter_key [where key = participant_key, OF assms])
       (auto simp: participant_key_def)
  finally show ?thesis by (simp add: participant_of_def)
qed

lemma entry_of_getUserConversations:
  assumes "e \<in> set (getUserConversations p u d)"
  shows "conv e \<in> set (select_conversations p d)"
    and "c_owner_id (conv e) = u \<or> c_renter_id (conv e) = u"
    and "unread_count e = unreadCount p (c_id (conv e)) u d"
  using assms
  by (auto simp: getUserConversations_def user_conversation_rows_def order_desc_def)

text \<open>
  C6. In the list a user gets for their own account, an entry whose conversation has
  that user's participant row, last read at \<open>t\<close>, reports as unread count the number
  of messages of that conversation sent by somebody else and created strictly after
  \<open>t\<close>. The table's unique pair makes that row the only one.
\<close>

theorem unread_count_counts_later_messages_of_others:
  assumes e: "e \<in> set (getUserConversations (Authenticated u) u d)"
    and unique: "distinct (map participant_key (conversation_participants d))"
    and r: "r \<in> set (conversation_participants d)"
      "p_conversation_id r = c_id (conv e)" "p_user_id r = u" "p_last_read_at r = Some t"
  shows "unread_count e =
         length [m \<leftarrow> messages d. m_conversation_id m = c_id (conv e) \<and> m_sender_id m \<noteq> u \<and>
                   t < m_created_at m]"
proof -
  note facts = entry_of_getUserConversations [OF e]
  from facts(1) have c: "conv e \<in> set (conversations d)"
    by (simp add: select_conversations_def)
  from participant_of_own [OF unique r(1)] r(2,3)
  have p: "participant_of (Authenticated u) (c_id (conv e)) u d = Some r" by simp
  have "[m \<leftarrow> select_messages (Authenticated u) d.
           m_conversation_id m = c_id (conv e) \<and> m_sender_id m \<noteq> u \<and> t < m_created_at m] =
        [m \<leftarrow> messages d. m_conversation_id m = c_id (conv e) \<and> m_sender_id m \<noteq> u \<and>
           t < m_created_at m]"
    unfolding select_messages_def filter_filter
    by (rule filter_cong) (auto simp: own_messages_visible [OF c facts(2)])
  with p r(4) facts(3) show ?thesis by (simp add: unreadCount_def)
qed

theorem unread_count_counts_later_messages_of_others_witness:
  "\<lparr>conv = thread 9, last_message = Some (text_message 32 2 9), unread_count = 2\<rparr> \<in>
     set (getUserConversations (Authenticated 2) 2
       (example_db [thread 9]
          [text_message 30 1 9, text_message 31 1 8, text_message 32 2 9, text_message 33 1 5]
          [member 40 1 (Some 5), member 41 2 (Some 5)])) \<and>
   length [m \<leftarrow> messages (example_db [thread 9]
          [text_message 30 1 9, text_message 31 1 8, text_message 32 2 9, text_message 33 1 5]
          [member 40 1 (Some 5), member 41 2 (Some 5)]).
        m_conversation_id m = 20 \<and> m_sender_id m \<noteq> 2 \<and> 5 < m_created_at m] = 2"
proof -
  let ?d = "example_db [thread 9]
          [text_message 30 1 9, text_message 31 1 8, text_message 32 2 9, text_message 33 1 5]
          [member 40 1 (Some 5), member 41 2 (Some 5)]"
  let ?e = "\<lparr>conv = thread 9, last_message = Some (text_message 32 2 9), unread_count = 2\<rparr>"
  have h1: "?e \<in> set (getUserConversations (Authenticated 2) 2 ?d)"
    by (simp add: getUserConversations_def user_conversation_rows_def order_desc_def
        lastMessage_def unreadCount_def participant_of_def select_participants_def
        select_conversations_def select_messages_def example_defs policy_defs)
  have h2: "distinct (map participant_key (conversation_participants ?d))"
    by (simp add: example_defs participant_key_def)
  have h3: "member 41 2 (Some 5) \<in> set (conversation_participants ?d)"
    by (simp add: example_defs)
  have h4: "p_conversation_id (member 41 2 (Some 5)) = c_id (conv ?e)"
      "p_user_id (member 41 2 (Some 5)) = 2" "p_last_read_at (member 41 2 (Some 5)) = Some 5"
    by (simp_all add: example_defs)
  have i: "c_id (conv ?e) = 20" by (simp add: thread_def)
  from unread_count_counts_later_messages_of_others [OF h1 h2 h3 h4] h1
  show ?thesis unfolding i by simp
qed

text \<open>
  C10. Whoever asks and whatever messages there are: an entry whose participant row
  could not be fetched (no row, more than one, or hidden by the policy), or was
  fetched without a \<^verbatim>\<open>last_read_at\<close>, reports the unread count 0.
\<close>

theorem unread_count_zero_without_last_read_at:
  assumes "e \<in> set (getUserConversations p u d)"
    and "case participant_of p (c_id (conv e)) u d of
           None \<Rightarrow> True | Some participant \<Rightarrow> p_last_read_at participant = None"
  shows "unread_count e = 0"
  using entry_of_getUserConversations(3) [OF assms(1)] assms(2)
  by (simp add: unreadCount_def split: option.splits)

theorem unread_count_zero_without_last_read_at_witness:
  "\<lparr>conv = thread 9, last_message = Some (text_message 30 1 9), unread_count = 0\<rparr> \<in>
     set (getUserConversations (Authenticated 2) 2
       (example_db [thread 9] [text_message 30 1 9, text_message 31 1 8]
          [member 40 1 (Some 5), member 41 2 None])) \<and>
   participant_of (Authenticated 2) 20 2
       (example_db [thread 9] [text_message 30 1 9, text_message 31 1 8]
          [member 40 1 (Some 5), member 41 2 None]) = Some (member 41 2 None) \<and>
   p_last_read_at (member 41 2 None) = None \<and>
   length [m \<leftarrow> messages (example_db [thread 9] [text_message 30 1 9, text_message 31 1 8]
          [member 40 1 (Some 5), member 41 2 None]).
        m_conversation_id m = 20 \<and> m_sender_id m \<noteq> 2] = 2"
proof -
  let ?d = "example_db [thread 9] [text_message 30 1 9, text_message 31 1 8]
          [member 40 1 (Some 5), member 41 2 None]"
  let ?e = "\<lparr>conv = thread 9, last_message = Some (text_message 30 1 9), unread_count = 0\<rparr>"
  have h1: "?e \<in> set (getUserConversations (Authenticated 2) 2 ?d)"
    by (simp add: getUserConversations_def user_conversation_rows_def order_desc_def
        lastMessage_def unreadCount_def participant_of_def select_participants_def
        select_conversations_def select_messages_def example_defs policy_defs)
  have p: "participant_of (Authenticated 2) 20 2 ?d = Some (member 41 2 None)"
    by (simp add: participant_of_def select_participants_def example_defs policy_defs)
  have i: "c_id (conv ?e) = 20" by (simp add: thread_def)
  have h2: "case participant_of (Authenticated 2) (c_id (conv ?e)) 2 ?d of
           None \<Rightarrow> True | Some participant \<Rightarrow> p_last_read_at participant = None"
    unfolding i p by (simp add: member_def)
  have others: "length [m \<leftarrow> messages ?d. m_conversation_id m = 20 \<and> m_sender_id m \<noteq> 2] = 2"
    by (simp add: example_defs)
  from unread_count_zero_without_last_read_at [OF h1 h2] h1 p others
  show ?thesis by (simp add: member_def)
qed

section \<open>Marking a conversation as read\<close>

lemma mark_row_simps [simp]:
  "p_id (mark_row p t C U r) = p_id r"
  "participant_key (mark_row p t C U r) = participant_key r"
  "p_conversation_id (mark_row p t C U r) = p_conversation_id r"
  "p_user_id (mark_row p t C U r) = p_user_id r"
  "participants_select_policy p (mark_row p t C U r) = participants_select_policy p r"
  by (simp_all add: mark_row_def participant_key_def participants_select_policy_def)

lemma markAsRead_rows:
  assumes "participants_constraints d"
  shows "markAsRead p t C U d =
         d\<lparr>conversation_participants := map (mark_row p t C U) (conversation_participants d)\<rparr>"
proof -
  let ?flt = "\<lambda>r. p_conversation_id r = C \<and> p_user_id r = U"
  let ?upd = "\<lambda>r. r\<lparr>p_last_read_at := Some t\<rparr>"
  have f: "(\<lambda>r. if matches (Where ?flt) r \<and>
                    (if reads_columns (Where ?flt) then participants_select_policy p r else True) \<and>
                    participants_update_policy p r
                 then ?upd r else r) = mark_row p t C U"
    by (simp add: mark_row_def fun_eq_iff)
  have pol: "participants_update_policy p (?upd r) = participants_update_policy p r"
      "participants_select_policy p (?upd r) = participants_select_policy p r"
      "participant_fk d (?upd r) = participant_fk d r" for r
    by (simp_all add: participants_update_policy_def participants_select_policy_def
        participant_fk_def)
  have ids: "map p_id (map (mark_row p t C U) rs) = map p_id rs"
      "map participant_key (map (mark_row p t C U) rs) = map participant_key rs" for rs
    by (simp_all add: comp_def)
  from assms have "update_participants p (Where ?flt) ?upd d =
      Inr (d\<lparr>conversation_participants := map (mark_row p t C U) (conversation_participants d)\<rparr>)"
    unfolding update_participants_def Let_def f pol ids participants_constraints_def
    by auto
  then show ?thesis by (simp add: markAsRead_def)
qed

lemma markAsRead_constraints:
  assumes "participants_constraints d"
  shows "participants_constraints (markAsRead p t C U d)"
proof -
  have "participant_fk (d\<lparr>conversation_participants := rs\<rparr>) (mark_row p t C U r) =
        participant_fk d r" for r rs
    by (simp add: participant_fk_def)
  with assms show ?thesis
    unfolding markAsRead_rows [OF assms] participants_constraints_def
    by (simp add: comp_def)
qed

text \<open>
  After \<^verbatim>\<open>markAsRead\<close> wrote the time \<open>t\<close>, the count is that of the messages from
  others that are later than \<open>t\<close>, or 0 when the row cannot be fetched.
\<close>

lemma unreadCount_after_mark:
  assumes "participants_constraints d"
  shows "unreadCount p C U (markAsRead p t C U d) =
         (case participant_of p C U (markAsRead p t C U d) of
            None \<Rightarrow> 0
          | Some r \<Rightarrow> length [m \<leftarrow> select_messages p d.
                m_conversation_id m = C \<and> m_sender_id m \<noteq> U \<and> t < m_created_at m])"
proof (cases "participant_of p C U (markAsRead p t C U d)")
  case None
  then show ?thesis by (simp add: unreadCount_def)
next
  case (Some r')
  let ?d' = "markAsRead p t C U d"
  from Some have "r' \<in> set [r \<leftarrow> select_participants p ?d'.
                               p_conversation_id r = C \<and> p_user_id r = U]"
    unfolding participant_of_def by (rule single_Some_mem)
  then obtain r where r: "r \<in> set (conversation_participants d)"
    and r': "r' = mark_row p t C U r"
    and sel: "participants_select_policy p r'"
    and key: "p_conversation_id r' = C" "p_user_id r' = U"
    by (auto simp: select_participants_def markAsRead_rows [OF assms])
  from sel key have "participants_select_policy p r" "participants_update_policy p r"
      "p_conversation_id r = C" "p_user_id r = U"
    by (simp_all add: r' participants_update_policy_def participants_select_policy_def)
  then have "p_last_read_at r' = Some t" by (simp add: r' mark_row_def)
  moreover have "select_messages p ?d' = select_messages p d"
    unfolding markAsRead_rows [OF assms] select_messages_def
    by (rule filter_cong) (simp_all add: messages_select_policy_def in_own_conversation_def)
  ultimately show ?thesis using Some by (simp add: unreadCount_def)
qed

lemma unreadCount_zero_after_mark:
  assumes c: "participants_constraints d"
    and t: "\<forall>m \<in> set (messages d).
              m_conversation_id m = C \<and> m_sender_id m \<noteq> U \<longrightarrow> m_created_at m \<le> t"
  shows "unreadCount p C U (markAsRead p t C U d) = 0"
proof -
  from t have "[m \<leftarrow> select_messages p d.
                m_conversation_id m = C \<and> m_sender_id m \<noteq> U \<and> t < m_created_at m] = []"
    by (auto simp: filter_empty_conv select_messages_def)
  then show ?thesis
    by (simp add: unreadCount_after_mark [OF c] split: option.splits)
qed

lemma markAsRead_idem:
  assumes "participants_constraints d"
  shows "markAsRead p t C U (markAsRead p t C U d) = markAsRead p t C U d"
proof -
  have "mark_row p t C U (mark_row p t C U r) = mark_row p t C U r" for r
    by (auto simp: mark_row_def participants_select_policy_def participants_update_policy_def)
  then show ?thesis
    unfolding markAsRead_rows [OF markAsRead_constraints [OF assms]]
    unfolding markAsRead_rows [OF assms]
    by (simp add: comp_def)
qed

text \<open>
  C7, as stated, fails when the caller's clock is behind the server's: the owner's
  message was stamped 9 by the server's \<^verbatim>\<open>now()\<close>, user 2 marks the conversation as
  read while the caller's clock shows 7, and the message still counts as unread.
\<close>

theorem markAsRead_behind_server_clock:
  "markAsRead (Authenticated 2) 7 20 2
       (example_db [thread 9] [text_message 30 1 9] [member 40 1 (Some 5), member 41 2 (Some 5)]) =
     example_db [thread 9] [text_message 30 1 9] [member 40 1 (Some 5), member 41 2 (Some 7)] \<and>
   unreadCount (Authenticated 2) 20 2
       (example_db [thread 9] [text_message 30 1 9] [member 40 1 (Some 5), member 41 2 (Some 7)])
     = 1"
  by (simp add: markAsRead_def update_participants_def unreadCount_def participant_of_def
      select_participants_def select_messages_def example_defs policy_defs constraint_defs)

text \<open>
  C7, amended. \<^verbatim>\<open>markAsRead(C, U)\<close>, called in \<open>U\<close>'s session, writes the time \<open>t\<close>
  of the caller's clock into \<^verbatim>\<open>last_read_at\<close> of \<open>U\<close>'s participant row of \<open>C\<close> and
  leaves every other row as it was. If no message of \<open>C\<close> from another sender was
  created later than \<open>t\<close>, the unread count of \<open>U\<close> on \<open>C\<close> computed next is 0; it is
  still 0 after a second call at a time \<open>t' \<ge> t\<close>, and a second call at the same time
  changes nothing.
\<close>

theorem markAsRead_clears_unread_count:
  assumes c: "participants_constraints d"
    and t: "\<forall>m \<in> set (messages d).
              m_conversation_id m = C \<and> m_sender_id m \<noteq> U \<longrightarrow> m_created_at m \<le> t"
    and t': "t \<le> t'"
  shows "markAsRead (Authenticated U) t C U d =
           d\<lparr>conversation_participants :=
               map (\<lambda>r. if p_conversation_id r = C \<and> p_user_id r = U
                         then r\<lparr>p_last_read_at := Some t\<rparr> else r)
                   (conversation_participants d)\<rparr> \<and>
         unreadCount p C U (markAsRead p t C U d) = 0 \<and>
         unreadCount p C U (markAsRead p t' C U (markAsRead p t C U d)) = 0 \<and>
         markAsRead p t C U (markAsRead p t C U d) = markAsRead p t C U d"
proof -
  have "mark_row (Authenticated U) t C U r =
        (if p_conversation_id r = C \<and> p_user_id r = U
         then r\<lparr>p_last_read_at := Some t\<rparr> else r)" for r
  proof (cases "p_conversation_id r = C \<and> p_user_id r = U")
    case True
    then have "participants_select_policy (Authenticated U) r"
        "participants_update_policy (Authenticated U) r"
      by (simp_all add: participants_select_policy_def participants_update_policy_def)
    with True show ?thesis unfolding mark_row_def by simp
  next
    case False
    then have "\<not> ((p_conversation_id r = C \<and> p_user_id r = U) \<and>
                participants_select_policy (Authenticated U) r \<and>
                participants_update_policy (Authenticated U) r)"
      by blast
    then have "mark_row (Authenticated U) t C U r = r"
      unfolding mark_row_def by (rule if_not_P)
    moreover from False
    have "(if p_conversation_id r = C \<and> p_user_id r = U
           then r\<lparr>p_last_read_at := Some t\<rparr> else r) = r"
      by (rule if_not_P)
    ultimately show ?thesis by (simp only:)
  qed
  then have "mark_row (Authenticated U) t C U =
        (\<lambda>r. if p_conversation_id r = C \<and> p_user_id r = U
              then r\<lparr>p_last_read_at := Some t\<rparr> else r)"
    by (rule ext)
  then have w: "markAsRead (Authenticated U) t C U d =
           d\<lparr>conversation_participants :=
               map (\<lambda>r. if p_conversation_id r = C \<and> p_user_id r = U
                         then r\<lparr>p_last_read_at := Some t\<rparr> else r)
                   (conversation_participants d)\<rparr>"
    by (simp add: markAsRead_rows [OF c])
  have m: "messages (markAsRead p t C U d) = messages d"
    by (simp add: markAsRead_rows [OF c])
  from t t' have "\<forall>m \<in> set (messages (markAsRead p t C U d)).
              m_conversation_id m = C \<and> m_sender_id m \<noteq> U \<longrightarrow> m_created_at m \<le> t'"
    unfolding m by fastforce
  from unreadCount_zero_after_mark [OF markAsRead_constraints [OF c] this]
    unreadCount_zero_after_mark [OF c t] markAsRead_idem [OF c] w
  show ?thesis by simp
qed

theorem markAsRead_clears_unread_count_witness:
  "participants_constraints
     (example_db [thread 9] [text_message 30 1 9] [member 40 1 (Some 5), member 41 2 (Some 5)]) \<and>
   unreadCount (Authenticated 2) 20 2
     (example_db [thread 9] [text_message 30 1 9] [member 40 1 (Some 5), member 41 2 (Some 5)])
     = 1 \<and>
   markAsRead (Authenticated 2) 9 20 2
     (example_db [thread 9] [text_message 30 1 9] [member 40 1 (Some 5), member 41 2 (Some 5)])
     = example_db [thread 9] [text_message 30 1 9] [member 40 1 (Some 5), member 41 2 (Some 9)] \<and>
   unreadCount (Authenticated 2) 20 2 (markAsRead (Authenticated 2) 9 20 2
     (example_db [thread 9] [text_message 30 1 9] [member 40 1 (Some 5), member 41 2 (Some 5)]))
     = 0 \<and>
   unreadCount (Authenticated 2) 20 2 (markAsRead (Authenticated 2) 12 20 2
     (markAsRead (Authenticated 2) 9 20 2
       (example_db [thread 9] [text_message 30 1 9]
          [member 40 1 (Some 5), member 41 2 (Some 5)]))) = 0"
proof -
  let ?d = "example_db [thread 9] [text_message 30 1 9]
              [member 40 1 (Some 5), member 41 2 (Some 5)]"
  have h1: "participants_constraints ?d"
    by (simp add: participants_constraints_def example_defs constraint_defs)
  have h2: "\<forall>m \<in> set (messages ?d).
              m_conversation_id m = 20 \<and> m_sender_id m \<noteq> 2 \<longrightarrow> m_created_at m \<le> 9"
    by (simp add: example_defs)
  have h3: "(9::nat) \<le> 12" by simp
  have before: "unreadCount (Authenticated 2) 20 2 ?d = 1"
    by (simp add: unreadCount_def participant_of_def select_participants_def select_messages_def
        example_defs policy_defs)
  note inst = markAsRead_clears_unread_count [OF h1 h2 h3, of "Authenticated 2"]
  have written: "markAsRead (Authenticated 2) 9 20 2 ?d =
      example_db [thread 9] [text_message 30 1 9] [member 40 1 (Some 5), member 41 2 (Some 9)]"
    unfolding inst [THEN conjunct1] by (simp add: example_defs)
  from inst h1 before written show ?thesis by blast
qed


section \<open>A user outside a conversation\<close>








section \<open>Releasing the live subscriptions\<close>

lemma open_channels_fold_unsubscribe:
  "open_channels (fold (\<lambda>(conversationId, subscription). unsubscribe subscription) subs s) =
     [ch \<leftarrow> open_channels s. ch \<notin> snd ` set subs]"
proof (induction subs arbitrary: s)
  case Nil
  then show ?case by simp
next
  case (Cons x subs)
  obtain conversationId subscription where x: "x = (conversationId, subscription)"
    by (cases x)
  have "[ch \<leftarrow> open_channels (unsubscribe subscription s). ch \<notin> snd ` set subs] =
        [ch \<leftarrow> open_channels s. ch \<notin> snd ` set (x # subs)]"
    unfolding unsubscribe_def x by (simp add: removeAll_filter_not_eq) (rule filter_cong, auto)
  then show ?case by (simp add: Cons.IH x)
qed

lemma next_channel_fold_unsubscribe:
  "next_channel (fold (\<lambda>(conversationId, subscription). unsubscribe subscription) subs s) =
     next_channel s"
  by (induction subs arbitrary: s) (auto simp: unsubscribe_def)

lemma cleanup_eq:
  "cleanup s = \<lparr>subscriptions = [],
       open_channels = [ch \<leftarrow> open_channels s. ch \<notin> snd ` set (subscriptions s)],
       next_channel = next_channel s\<rparr>"
  by (simp add: cleanup_def open_channels_fold_unsubscribe next_channel_fold_unsubscribe)

text \<open>
  What \<^verbatim>\<open>cleanup\<close> does release: every subscription that is registered in the map. A
  second call changes nothing.
\<close>

lemma cleanup_releases_registered:
  "(conversationId, subscription) \<in> set (subscriptions s) \<Longrightarrow>
     subscription \<notin> set (open_channels (cleanup s))"
  by (force simp: cleanup_eq)

lemma cleanup_twice: "cleanup (cleanup s) = cleanup s"
  by (simp add: cleanup_eq)

text \<open>
  C3 does not hold of the code. \<^verbatim>\<open>subscribeToConversations\<close> never registers its
  subscription in the map that \<^verbatim>\<open>cleanup\<close> walks, so after \<^verbatim>\<open>cleanup()\<close> the
  conversation feed is still open: alone (channel 0), or next to a message feed that
  was released (channel 1 stays).
\<close>

theorem cleanup_leaves_conversation_feed_open:
  "open_channels (cleanup (snd (subscribeToConversations 2 new_chat_service))) = [0] \<and>
   open_channels (cleanup (snd (subscribeToConversations 2
       (snd (subscribeToMessages 20 new_chat_service))))) = [1]"
  by (simp add: cleanup_def subscribeToConversations_def subscribeToMessages_def
      open_channel_def unsubscribe_def new_chat_service_def)

section \<open>The rental request of the scenario\<close>

lemma date_text_june:
  "date_text (Ymd 2024 6 1) = ''2024-06-01''" "date_text (Ymd 2024 6 3) = ''2024-06-03''"
  by (simp_all add: two_digits_def digit_def)

lemma two_days:
  "ceil_div (getTime (Ymd 2024 6 3) - getTime (Ymd 2024 6 1)) (1000 * 60 * 60 * 24) = 2"
  by (simp add: days_from_civil_def ceil_div_def Let_def)

lemma june_state:
  assumes "ci_price_per_day item = 100"
  shows "handleEndDateChange item (Some (Ymd 2024 6 3))
           (handleStartDateChange item (Some (Ymd 2024 6 1)) s0) =
         \<lparr>startDate = Some (Ymd 2024 6 1), endDate = Some (Ymd 2024 6 3), totalPrice = 200\<rparr>"
  using assms two_days
  by (cases "endDate s0")
     (simp_all add: handleEndDateChange_def handleStartDateChange_def calculatePrice_def Let_def
        del: getTime.simps)

lemma getOrCreateConversation_tables:
  assumes "getOrCreateConversation p id now cid pids itemId ownerId renterId d = (res, d')"
  shows "messages d' = messages d \<and> rentals d' = rentals d"
  using assms
  by (auto simp: getOrCreateConversation_def Let_def dest: insert_conversation_tables
      split: option.splits sum.splits)

lemma insert_message_tables:
  assumes "insert_message p m d = Inr d'"
  shows "messages d' = messages d @ [m] \<and> rentals d' = rentals d"
proof -
  from insert_message_Inr(3) [OF assms]
  have "update_conversations p (Where (\<lambda>c. c_id c = m_conversation_id m))
      (\<lambda>c. c\<lparr>c_last_message_at := m_created_at m, c_updated_at := m_created_at m\<rparr>)
      (d\<lparr>messages := messages d @ [m]\<rparr>) = Inr d'"
    by (simp add: update_conversation_last_message_def)
  from update_conversations_Inr(1) [OF this] show ?thesis by simp
qed

text \<open>
  \<^verbatim>\<open>handleSubmit\<close> for the request of the scenario, once the rental insert is accepted:
  the outcome is decided by the conversation and by the message insert.
\<close>

lemma handleSubmit_two_days:
  assumes price: "ci_price_per_day item = 100"
    and s: "s = handleEndDateChange item (Some (Ymd 2024 6 3))
                  (handleStartDateChange item (Some (Ymd 2024 6 1)) s0)"
    and rental: "insert_rental (Authenticated renter) (expected_rental sv item renter) d = Inr d1"
  shows "totalPrice s = 200"
    and "handleSubmit (Authenticated renter) id sv item content s d =
      (case getOrCreateConversation (Authenticated renter) id (sv_conversation_now sv)
               (sv_conversation_id sv) (sv_participant_ids sv)
               (ci_id item) (ci_owner_id item) renter d1 of
         (None, d2) \<Rightarrow> (RequestSent, d2)
       | (Some conversation, d2) \<Rightarrow>
           (case insert_message (Authenticated renter)
                    (expected_message sv renter content (c_id conversation)) d2 of
              Inl error \<Rightarrow> (RequestSent, d2)
            | Inr d3 \<Rightarrow> (RequestSent, d3)))"
proof -
  have st: "s = \<lparr>startDate = Some (Ymd 2024 6 1), endDate = Some (Ymd 2024 6 3),
                  totalPrice = 200\<rparr>"
    unfolding s by (rule june_state [OF price])
  then show "totalPrice s = 200" by simp
  have sm: "snd (sendMessage (Authenticated renter) (sv_message_now sv) (sv_message_id sv)
               cid renter content ''rental_request''
               (rental_request_metadata ''2024-06-01'' ''2024-06-03'' 200) d2) =
          (case insert_message (Authenticated renter)
                    (expected_message sv renter content cid) d2 of
             Inl error \<Rightarrow> d2
           | Inr d3 \<Rightarrow> d3)" for cid d2
    by (simp add: sendMessage_def expected_message_def rental_request_metadata_def Let_def
        split: sum.splits)
  show "handleSubmit (Authenticated renter) id sv item content s d =
      (case getOrCreateConversation (Authenticated renter) id (sv_conversation_now sv)
               (sv_conversation_id sv) (sv_participant_ids sv)
               (ci_id item) (ci_owner_id item) renter d1 of
         (None, d2) \<Rightarrow> (RequestSent, d2)
       | (Some conversation, d2) \<Rightarrow>
           (case insert_message (Authenticated renter)
                    (expected_message sv renter content (c_id conversation)) d2 of
              Inl error \<Rightarrow> (RequestSent, d2)
            | Inr d3 \<Rightarrow> (RequestSent, d3)))"
    using rental
    by (simp add: handleSubmit_def st expected_rental_def date_text_june sm
        del: date_text.simps split: option.splits prod.splits sum.splits)
qed

text \<open>
  A user who is not owner and renter at once never creates a conversation: when
  \<^verbatim>\<open>getOrCreateConversation\<close> yields one, it is the row its lookup found, and nothing
  was written.
\<close>

lemma getOrCreateConversation_never_creates:
  assumes "ownerId \<noteq> renterId"
    and "getOrCreateConversation (Authenticated u) others now cid pids itemId ownerId renterId d
           = (Some c, d')"
  shows "find_conversation (Authenticated u) itemId ownerId renterId d = Some c \<and> d' = d"
proof (cases "find_conversation (Authenticated u) itemId ownerId renterId d")
  case (Some existing)
  with assms(2) show ?thesis by (simp add: getOrCreateConversation_def)
next
  case None
  show ?thesis
  proof (cases "insert_conversation (Authenticated u) now pids
                  (new_conversation cid now itemId ownerId renterId) (others d)")
    case (Inl e)
    with None assms(2) show ?thesis by (simp add: getOrCreateConversation_def)
  next
    case (Inr d2)
    from authenticated_insert_conversation_self [OF Inr] assms(1) show ?thesis
      by (simp add: new_conversation_def)
  qed
qed

text \<open>
  How the request of the scenario goes when the conversation is already there: with
  price 100 a day and the dates 2024-06-01 and 2024-06-03 the form holds the total 200;
  if the rental insert is accepted, \<^verbatim>\<open>handleSubmit\<close> reports success and the rental is
  stored with total price 200 and status pending. The message follows the
  conversation: when \<^verbatim>\<open>getOrCreateConversation\<close> yields one and the message insert is
  accepted, exactly one message is appended, of type 'rental_request', whose metadata
  is \<^verbatim>\<open>{rental_details: {start_date, end_date, total_price: 200}}\<close>; when no
  conversation is obtained, or the message is rejected, the request still succeeds
  and the messages are as before.
\<close>

lemma rental_request_for_two_days:
  assumes price: "ci_price_per_day item = 100"
    and s: "s = handleEndDateChange item (Some (Ymd 2024 6 3))
                  (handleStartDateChange item (Some (Ymd 2024 6 1)) s0)"
    and rental: "insert_rental (Authenticated renter) (expected_rental sv item renter) d = Inr d1"
  shows "totalPrice s = 200 \<and>
     fst (handleSubmit (Authenticated renter) id sv item content s d) = RequestSent \<and>
     rentals (snd (handleSubmit (Authenticated renter) id sv item content s d)) =
       rentals d @ [expected_rental sv item renter] \<and>
     messages (snd (handleSubmit (Authenticated renter) id sv item content s d)) =
       (case getOrCreateConversation (Authenticated renter) id (sv_conversation_now sv)
               (sv_conversation_id sv) (sv_participant_ids sv)
               (ci_id item) (ci_owner_id item) renter d1 of
          (None, d2) \<Rightarrow> messages d
        | (Some conversation, d2) \<Rightarrow>
            (case insert_message (Authenticated renter)
                    (expected_message sv renter content (c_id conversation)) d2 of
               Inl error \<Rightarrow> messages d
             | Inr d3 \<Rightarrow> messages d @ [expected_message sv renter content (c_id conversation)]))"
proof -
  note two = handleSubmit_two_days [OF price s rental]
  have r1: "rentals d1 = rentals d @ [expected_rental sv item renter]" "messages d1 = messages d"
    using rental by (auto simp: insert_rental_def split: if_splits)
  obtain res d2 where g: "getOrCreateConversation (Authenticated renter) id
               (sv_conversation_now sv) (sv_conversation_id sv) (sv_participant_ids sv)
               (ci_id item) (ci_owner_id item) renter d1 = (res, d2)"
    by (cases "getOrCreateConversation (Authenticated renter) id (sv_conversation_now sv)
               (sv_conversation_id sv) (sv_participant_ids sv)
               (ci_id item) (ci_owner_id item) renter d1") blast
  note t2 = getOrCreateConversation_tables [OF g]
  show ?thesis
  proof (cases res)
    case None
    with two g t2 r1 show ?thesis by simp
  next
    case (Some conversation)
    show ?thesis
    proof (cases "insert_message (Authenticated renter)
                    (expected_message sv renter content (c_id conversation)) d2")
      case (Inl e)
      with two g t2 r1 Some show ?thesis by simp
    next
      case (Inr d3)
      from insert_message_tables [OF Inr] two g t2 r1 Some Inr show ?thesis by simp
    qed
  qed
qed

lemma rental_request_for_two_days_example:
  "ci_price_per_day jacket = 100 \<and>
   totalPrice june_request = 200 \<and>
   fst (handleSubmit (Authenticated 2) id generated jacket ''Hi!'' june_request
          (example_db [thread 5] [] [])) = RequestSent \<and>
   rentals (snd (handleSubmit (Authenticated 2) id generated jacket ''Hi!'' june_request
          (example_db [thread 5] [] []))) = [expected_rental generated jacket 2] \<and>
   messages (snd (handleSubmit (Authenticated 2) id generated jacket ''Hi!'' june_request
          (example_db [thread 5] [] []))) = [expected_message generated 2 ''Hi!'' 20] \<and>
   r_total_price (expected_rental generated jacket 2) = 200 \<and>
   r_status (expected_rental generated jacket 2) = Pending \<and>
   m_message_type (expected_message generated 2 ''Hi!'' 20) = ''rental_request''"
proof -
  let ?d = "example_db [thread 5] [] []"
  let ?d1 = "?d\<lparr>rentals := [expected_rental generated jacket 2]\<rparr>"
  let ?h = "handleSubmit (Authenticated 2) id generated jacket ''Hi!'' june_request ?d"
  have h1: "ci_price_per_day jacket = 100" by (simp add: jacket_def)
  have h3: "insert_rental (Authenticated 2) (expected_rental generated jacket 2) ?d = Inr ?d1"
    by (simp add: insert_rental_def expected_rental_def generated_def rental_fk_def
        example_defs policy_defs)
  have v: "sv_conversation_now generated = 7" "sv_conversation_id generated = 21"
      "sv_participant_ids generated = (42, 43)" "ci_id jacket = 10" "ci_owner_id jacket = 1"
    by (simp_all add: generated_def jacket_def)
  have g: "getOrCreateConversation (Authenticated 2) id 7 21 (42, 43) 10 1 2 ?d1 =
      (Some (thread 5), ?d1)"
    by (simp add: getOrCreateConversation_def find_conversation_def select_conversations_def
        example_defs policy_defs)
  have i: "c_id (thread 5) = 20" by (simp add: thread_def)
  have m: "insert_message (Authenticated 2) (expected_message generated 2 ''Hi!'' 20) ?d1 =
      Inr (?d1\<lparr>conversations := [thread 8],
                messages := [expected_message generated 2 ''Hi!'' 20]\<rparr>)"
    by (simp add: insert_message_def update_conversation_last_message_def
        update_conversations_def expected_message_def generated_def
        example_defs policy_defs constraint_defs)
  have f: "r_total_price (expected_rental generated jacket 2) = 200"
      "r_status (expected_rental generated jacket 2) = Pending"
      "m_message_type (expected_message generated 2 ''Hi!'' 20) = ''rental_request''"
    by (simp_all add: expected_rental_def expected_message_def)
  have e: "rentals ?d = []" "messages ?d = []"
    by (simp_all add: example_db_def)
  from rental_request_for_two_days [OF h1 june_request_def h3, where content = "''Hi!''"]
  have "totalPrice june_request = 200 \<and> fst ?h = RequestSent \<and>
      rentals (snd ?h) = rentals ?d @ [expected_rental generated jacket 2] \<and>
      messages (snd ?h) = messages ?d @ [expected_message generated 2 ''Hi!'' 20]"
    unfolding v g by (simp only: prod.case option.case i m sum.case)
  then have "totalPrice june_request = 200 \<and> fst ?h = RequestSent \<and>
      rentals (snd ?h) = [expected_rental generated jacket 2] \<and>
      messages (snd ?h) = [expected_message generated 2 ''Hi!'' 20]"
    unfolding e by (simp only: append_Nil)
  with h1 f show ?thesis by (intro conjI) (elim conjE, assumption)+
qed

text \<open>
  C9 does not hold of the code, in the scenario itself. User 2 asks for the owner's
  jacket for the two days; the rental is stored with total price 200 and status
  pending, but no conversation exists yet and none is created: the trigger's insert of
  the owner's participant row runs as user 2 and violates the participants' insert
  policy, the conversation insert is rejected, \<^verbatim>\<open>getOrCreateConversation\<close> returns
  null, and no message is appended, although \<^verbatim>\<open>handleSubmit\<close> reports success.
\<close>

theorem rental_request_without_conversation:
  "totalPrice june_request = 200 \<and>
   insert_rental (Authenticated 2) (expected_rental generated jacket 2) (example_db [] [] []) =
     Inr ((example_db [] [] [])\<lparr>rentals := [expected_rental generated jacket 2]\<rparr>) \<and>
   getOrCreateConversation (Authenticated 2) id 7 21 (42, 43) 10 1 2
       ((example_db [] [] [])\<lparr>rentals := [expected_rental generated jacket 2]\<rparr>) =
     (None, (example_db [] [] [])\<lparr>rentals := [expected_rental generated jacket 2]\<rparr>) \<and>
   handleSubmit (Authenticated 2) id generated jacket ''Hi!'' june_request (example_db [] [] []) =
     (RequestSent, (example_db [] [] [])\<lparr>rentals := [expected_rental generated jacket 2]\<rparr>) \<and>
   messages ((example_db [] [] [])\<lparr>rentals := [expected_rental generated jacket 2]\<rparr>) = []"
proof -
  let ?d1 = "(example_db [] [] [])\<lparr>rentals := [expected_rental generated jacket 2]\<rparr>"
  have p: "ci_price_per_day jacket = 100" by (simp add: jacket_def)
  have r: "insert_rental (Authenticated 2) (expected_rental generated jacket 2)
      (example_db [] [] []) = Inr ?d1"
    by (simp add: insert_rental_def expected_rental_def generated_def rental_fk_def
        example_defs policy_defs)
  have g: "getOrCreateConversation (Authenticated 2) id 7 21 (42, 43) 10 1 2 ?d1 = (None, ?d1)"
    by (simp add: getOrCreateConversation_def find_conversation_def select_conversations_def
        insert_conversation_def create_conversation_participants_def
        insert_participant_on_conflict_do_nothing_def new_conversation_def new_participant_def
        example_defs policy_defs constraint_defs)
  have v: "sv_conversation_now generated = 7" "sv_conversation_id generated = 21"
      "sv_participant_ids generated = (42, 43)" "ci_id jacket = 10" "ci_owner_id jacket = 1"
    by (simp_all add: generated_def jacket_def)
  note two = handleSubmit_two_days [OF p june_request_def r]
  have h: "handleSubmit (Authenticated 2) id generated jacket ''Hi!'' june_request
      (example_db [] [] []) = (RequestSent, ?d1)"
    unfolding two(2) v g by (simp only: prod.case option.case)
  have m: "messages ?d1 = []"
    by (simp add: example_db_def)
  from two(1) r g h m show ?thesis by (intro conjI)
qed

end
